theory Spec2Isabelle
  imports Complex_Main "HOL-Library.Word"
begin

unbundle bit_operations_syntax

section \<open>Driver for the RP2040 companion chip (rp2040.c)\<close>

subsection \<open>Result codes\<close>

text \<open>
  \<open>esp_err_t\<close> is a C \<open>int\<close>. The driver names four codes of \<open>esp_err.h\<close>; the bus
  transport may report any other non-zero code, \<open>ESP_ERR_TIMEOUT\<close> among them.
\<close>

type_synonym esp_err_t = int

abbreviation ESP_OK :: esp_err_t where "ESP_OK \<equiv> 0"
abbreviation ESP_FAIL :: esp_err_t where "ESP_FAIL \<equiv> - 1"
abbreviation ESP_ERR_NO_MEM :: esp_err_t where "ESP_ERR_NO_MEM \<equiv> 257"
abbreviation ESP_ERR_TIMEOUT :: esp_err_t where "ESP_ERR_TIMEOUT \<equiv> 263"
abbreviation ESP_ERR_INVALID_VERSION :: esp_err_t where "ESP_ERR_INVALID_VERSION \<equiv> 266"

text \<open>
  A call that does not return to its caller: the task is parked for ever in
  \<open>xSemaphoreTake(..., portMAX_DELAY)\<close>, the program is aborted by \<open>ESP_ERROR_CHECK\<close>,
  or the C standard leaves the behaviour undefined (a shift by at least the width of
  the promoted operand).
\<close>

datatype fault = Blocked | Aborted | Undefined

subsection \<open>Register names\<close>

text \<open>
  The register numbers are enumerators of \<open>rp2040.h\<close>. Every driver function takes the
  numbering as its first argument \<open>R\<close>, a function from the enumerator's name to the
  byte that is sent on the bus.
\<close>

datatype reg_name =
    RP2040_REG_FW_VER
  | RP2040_REG_GPIO_DIR
  | RP2040_REG_GPIO_IN
  | RP2040_REG_GPIO_OUT
  | RP2040_REG_LCD_BACKLIGHT
  | RP2040_REG_FPGA
  | RP2040_REG_INPUT1
  | RP2040_REG_UID0
  | RP2040_REG_ADC_VALUE_VBAT_LO
  | RP2040_REG_ADC_VALUE_VUSB_LO
  | RP2040_REG_ADC_VALUE_TEMP_LO
  | RP2040_REG_CHARGING_STATE
  | RP2040_REG_USB
  | RP2040_REG_WEBUSB_MODE
  | RP2040_REG_CRASH_DEBUG
  | RP2040_REG_IR_ADDRESS_LO
  | RP2040_REG_RESET_ATTEMPTED
  | RP2040_REG_RESET_LOCK
  | RP2040_REG_WS2812_MODE
  | RP2040_REG_WS2812_LED0_DATA0
  | RP2040_REG_WS2812_LENGTH
  | RP2040_REG_WS2812_TRIGGER
  | RP2040_REG_MSC_CONTROL
  | RP2040_REG_MSC_STATE
  | RP2040_REG_MSC0_BLOCK_COUNT_LO_A
  | RP2040_REG_MSC1_BLOCK_COUNT_LO_A
  | RP2040_REG_MSC0_BLOCK_SIZE_LO
  | RP2040_REG_MSC1_BLOCK_SIZE_LO
  | RP2040_REG_BL_TRIGGER
  | RP2040_BL_REG_BL_VER
  | RP2040_BL_REG_BL_STATE
  | RP2040_BL_REG_BL_CTRL

type_synonym regmap = "reg_name \<Rightarrow> 8 word"

subsection \<open>The device structure and its surroundings\<close>

text \<open>
  The fields of \<open>struct RP2040\<close> that the driver reads or writes. \<open>i2c_semaphore\<close> is
  \<open>True\<close> when the pointer is not \<open>NULL\<close>; the state of the semaphore itself lives in
  the world. The handler \<open>callback\<close> is represented by the list of its invocations,
  also in the world.
\<close>

record RP2040 =
  i2c_semaphore :: bool
  pin_interrupt :: int
  fw_version :: "8 word"
  gpio_direction :: "8 word"
  gpio_value :: "8 word"

text \<open>One transaction on the two-wire bus, as handed to the transport.\<close>

datatype txn =
    TransmitReceive "8 word list" nat
  | Transmit "8 word list"

text \<open>
  Everything outside the structure: the companion chip as a byte-addressed register
  file whose pointer advances by one per byte, the results the transport is going to
  report for the coming transactions (an exhausted list means \<open>ESP_OK\<close>), the
  transactions handed to the transport so far, the state of the bus semaphore, the
  binary semaphore \<open>_intr_trigger\<close>, whether the worker task has been created, and
  the invocations of the input handler.
\<close>

record world =
  regs :: "8 word \<Rightarrow> 8 word"
  outcomes :: "esp_err_t list"
  log :: "txn list"
  lock_held :: bool
  intr_trigger :: bool
  intr_task_created :: bool
  callbacks :: "(8 word \<times> bool) list"

subsection \<open>FreeRTOS and the bus transport\<close>

fun store :: "8 word \<Rightarrow> 8 word list \<Rightarrow> (8 word \<Rightarrow> 8 word) \<Rightarrow> (8 word \<Rightarrow> 8 word)" where
  "store r [] m = m"
| "store r (b # bs) m = store (r + 1) bs (m(r := b))"

definition load :: "8 word \<Rightarrow> nat \<Rightarrow> (8 word \<Rightarrow> 8 word) \<Rightarrow> 8 word list" where
  "load r n m = map (\<lambda>i. m (r + of_nat i)) [0..<n]"

definition next_outcome :: "world \<Rightarrow> esp_err_t" where
  "next_outcome w = (case outcomes w of [] \<Rightarrow> ESP_OK | e # _ \<Rightarrow> e)"

text \<open>
  \<open>i2c_master_transmit\<close>: the frame is a register number followed by the payload. A
  transaction that fails changes no register.
\<close>

definition i2c_master_transmit :: "8 word list \<Rightarrow> world \<Rightarrow> esp_err_t \<times> world" where
  "i2c_master_transmit frame w =
     (let e = next_outcome w;
          w1 = w\<lparr>log := log w @ [Transmit frame], outcomes := tl (outcomes w)\<rparr>
      in if e \<noteq> ESP_OK then (e, w1)
         else (case frame of
                 [] \<Rightarrow> (ESP_OK, w1)
               | r # payload \<Rightarrow> (ESP_OK, w1\<lparr>regs := store r payload (regs w1)\<rparr>)))"

text \<open>
  \<open>i2c_master_transmit_receive\<close>: the frame sets the register pointer, then
  \<open>read_size\<close> bytes are read from there. A transaction that fails delivers nothing.
\<close>

definition i2c_master_transmit_receive ::
    "8 word list \<Rightarrow> nat \<Rightarrow> world \<Rightarrow> esp_err_t \<times> 8 word list \<times> world" where
  "i2c_master_transmit_receive frame read_size w =
     (let e = next_outcome w;
          w1 = w\<lparr>log := log w @ [TransmitReceive frame read_size], outcomes := tl (outcomes w)\<rparr>
      in if e \<noteq> ESP_OK then (e, [], w1)
         else (case frame of
                 [] \<Rightarrow> (ESP_OK, [], w1)
               | r # payload \<Rightarrow>
                   (let m = store r payload (regs w1)
                    in (ESP_OK, load (r + of_nat (length payload)) read_size m, w1\<lparr>regs := m\<rparr>))))"

text \<open>
  The two semaphores of the structure. \<open>xSemaphoreTake(..., portMAX_DELAY)\<close> waits
  without limit: a caller that finds the bus semaphore taken, with nobody left to give
  it back, never returns; the worker that finds no signal on \<open>_intr_trigger\<close> stays
  parked until the interrupt handler gives one.
\<close>

datatype semaphore = I2C_SEMAPHORE | INTR_TRIGGER

fun xSemaphoreTake :: "semaphore \<Rightarrow> world \<Rightarrow> fault + world" where
  "xSemaphoreTake I2C_SEMAPHORE w =
     (if lock_held w then Inl Blocked else Inr (w\<lparr>lock_held := True\<rparr>))"
| "xSemaphoreTake INTR_TRIGGER w =
     (if intr_trigger w then Inr (w\<lparr>intr_trigger := False\<rparr>) else Inl Blocked)"

fun xSemaphoreGive :: "semaphore \<Rightarrow> world \<Rightarrow> world" where
  "xSemaphoreGive I2C_SEMAPHORE w = w\<lparr>lock_held := False\<rparr>"
| "xSemaphoreGive INTR_TRIGGER w = w\<lparr>intr_trigger := True\<rparr>"

subsection \<open>Register transactions\<close>

text \<open>
  \<open>ESP_RETURN_ON_ERROR(x, ...)\<close> of \<open>esp_check.h\<close> evaluates \<open>x\<close> and, when the result is
  not \<open>ESP_OK\<close>, logs and returns that result from the enclosing function at once.
  The buffer \<open>value\<close> is returned as the bytes the transport delivered.
\<close>

definition rp2040_read_reg ::
    "RP2040 \<Rightarrow> 8 word \<Rightarrow> nat \<Rightarrow> world \<Rightarrow> fault + (esp_err_t \<times> 8 word list \<times> world)" where
  "rp2040_read_reg device reg value_len w =
     (case (if i2c_semaphore device then xSemaphoreTake I2C_SEMAPHORE w else Inr w) of
        Inl f \<Rightarrow> Inl f
      | Inr w1 \<Rightarrow>
          (case i2c_master_transmit_receive [reg] value_len w1 of
             (err_rc, bytes, w2) \<Rightarrow>
               if err_rc \<noteq> ESP_OK then Inr (err_rc, bytes, w2)
               else Inr (ESP_OK, bytes, if i2c_semaphore device then xSemaphoreGive I2C_SEMAPHORE w2 else w2)))"

text \<open>
  The frame \<open>buf\<close> is \<open>reg\<close> followed by a copy of \<open>value\<close>. (The source neither checks
  the result of \<open>malloc\<close> nor frees \<open>buf\<close>; the allocation is taken to succeed.)
\<close>

definition rp2040_write_reg ::
    "RP2040 \<Rightarrow> 8 word \<Rightarrow> 8 word list \<Rightarrow> world \<Rightarrow> fault + (esp_err_t \<times> world)" where
  "rp2040_write_reg device reg val w =
     (let buf = reg # val in
      case (if i2c_semaphore device then xSemaphoreTake I2C_SEMAPHORE w else Inr w) of
        Inl f \<Rightarrow> Inl f
      | Inr w1 \<Rightarrow>
          (case i2c_master_transmit buf w1 of
             (err_rc, w2) \<Rightarrow>
               if err_rc \<noteq> ESP_OK then Inr (err_rc, w2)
               else Inr (ESP_OK, if i2c_semaphore device then xSemaphoreGive I2C_SEMAPHORE w2 else w2)))"

subsection \<open>Bytes of an object\<close>

text \<open>
  The driver passes \<open>(uint8_t*) &x\<close> for objects of two and four bytes. The target is
  little-endian: the byte at the lowest address is the least significant one.
\<close>

fun le_word :: "8 word list \<Rightarrow> 'a::len word" where
  "le_word [] = 0"
| "le_word (b # bs) = ucast b OR push_bit 8 (le_word bs)"

definition le_bytes :: "nat \<Rightarrow> 'a::len word \<Rightarrow> 8 word list" where
  "le_bytes n x = map (\<lambda>i. ucast (drop_bit (8 * i) x)) [0..<n]"

subsection \<open>The interrupt worker\<close>

text \<open>\<open>_send_input_change\<close> calls the registered handler.\<close>

definition send_input_change :: "RP2040 \<Rightarrow> 8 word \<Rightarrow> bool \<Rightarrow> world \<Rightarrow> world" where
  "send_input_change device input val w = w\<lparr>callbacks := callbacks w @ [(input, val)]\<rparr>"

text \<open>
  The \<open>for\<close> loop of \<open>rp2040_intr_task\<close>, entered with \<open>index = 0\<close>. The operands of
  \<open>>>\<close> are promoted to \<open>int\<close>, 32 bits wide.
\<close>

function intr_task_for :: "RP2040 \<Rightarrow> 16 word \<Rightarrow> 16 word \<Rightarrow> 8 word \<Rightarrow> world \<Rightarrow> world" where
  "intr_task_for device interrupt vals index w =
     (if index < 16 then
        intr_task_for device interrupt vals (index + 1)
          (if drop_bit (unat index) (ucast interrupt :: 32 word) AND 0x01 \<noteq> 0
           then send_input_change device index
                  (drop_bit (unat index) (ucast vals :: 32 word) AND 0x01 \<noteq> 0) w
           else w)
      else w)"
  by pat_completeness auto
termination
proof (relation "measure (\<lambda>(device, interrupt, vals, index, w). 16 - unat index)")
  show "wf (measure (\<lambda>(device, interrupt, vals, index, w). 16 - unat index))"
    by simp
next
  fix device :: RP2040 and interrupt vals :: "16 word" and index :: "8 word" and w :: world
  assume "index < 16"
  then have "unat index < 16"
    by (simp add: word_less_nat_alt)
  then have "unat (index + 1) = Suc (unat index)"
    by (simp add: unat_word_ariths)
  with \<open>unat index < 16\<close>
  show "((device, interrupt, vals, index + 1,
           if drop_bit (unat index) (ucast interrupt :: 32 word) AND 0x01 \<noteq> 0
           then send_input_change device index
                  (drop_bit (unat index) (ucast vals :: 32 word) AND 0x01 \<noteq> 0) w
           else w),
          (device, interrupt, vals, index, w))
        \<in> measure (\<lambda>(device, interrupt, vals, index, w). 16 - unat index)"
    by simp
qed

declare intr_task_for.simps [simp del]

text \<open>
  One pass through the body of \<open>while (1)\<close>: wait for a signal, read the four bytes at
  \<open>RP2040_REG_INPUT1\<close> into \<open>state\<close>, and either \<open>continue\<close> or run the \<open>for\<close> loop.
\<close>

definition intr_task_body :: "regmap \<Rightarrow> RP2040 \<Rightarrow> world \<Rightarrow> fault + world" where
  "intr_task_body R device w =
     (case xSemaphoreTake INTR_TRIGGER w of
        Inl f \<Rightarrow> Inl f
      | Inr w1 \<Rightarrow>
          (case rp2040_read_reg device (R RP2040_REG_INPUT1) 4 w1 of
             Inl f \<Rightarrow> Inl f
           | Inr (res, bytes, w2) \<Rightarrow>
               if res \<noteq> ESP_OK then Inr w2
               else (let state = (le_word bytes :: 32 word);
                         interrupt = (ucast (drop_bit 16 state) :: 16 word);
                         vals = (ucast (state AND 0xFFFF) :: 16 word)
                     in Inr (intr_task_for device interrupt vals 0 w2))))"

text \<open>
  The worker never leaves \<open>while (1)\<close>. The number of passes is the fuel; the worker
  that finds no signal is parked.
\<close>

fun rp2040_intr_task :: "regmap \<Rightarrow> RP2040 \<Rightarrow> nat \<Rightarrow> world \<Rightarrow> fault + world" where
  "rp2040_intr_task R device 0 w = Inr w"
| "rp2040_intr_task R device (Suc n) w =
     (case intr_task_body R device w of
        Inl f \<Rightarrow> Inl f
      | Inr w' \<Rightarrow> rp2040_intr_task R device n w')"

definition rp2040_intr_handler :: "world \<Rightarrow> world" where
  "rp2040_intr_handler w = xSemaphoreGive INTR_TRIGGER w"

subsection \<open>Firmware version and bootloader registers\<close>

definition rp2040_get_firmware_version ::
    "regmap \<Rightarrow> RP2040 \<Rightarrow> world \<Rightarrow> fault + (esp_err_t \<times> 8 word list \<times> RP2040 \<times> world)" where
  "rp2040_get_firmware_version R device w =
     (case rp2040_read_reg device (R RP2040_REG_FW_VER) 1 w of
        Inl f \<Rightarrow> Inl f
      | Inr (res, version, w') \<Rightarrow>
          if res = ESP_OK then Inr (res, version, device\<lparr>fw_version := le_word version\<rparr>, w')
          else Inr (res, version, device, w'))"

definition rp2040_get_bootloader_version ::
    "regmap \<Rightarrow> RP2040 \<Rightarrow> world \<Rightarrow> fault + (esp_err_t \<times> 8 word list \<times> world)" where
  "rp2040_get_bootloader_version R device w =
     (if fw_version device \<noteq> 0xFF then Inr (ESP_FAIL, [], w)
      else rp2040_read_reg device (R RP2040_BL_REG_BL_VER) 1 w)"

definition rp2040_get_bootloader_state ::
    "regmap \<Rightarrow> RP2040 \<Rightarrow> world \<Rightarrow> fault + (esp_err_t \<times> 8 word list \<times> world)" where
  "rp2040_get_bootloader_state R device w =
     (if fw_version device \<noteq> 0xFF then Inr (ESP_FAIL, [], w)
      else rp2040_read_reg device (R RP2040_BL_REG_BL_STATE) 1 w)"

definition rp2040_set_bootloader_ctrl :: "regmap \<Rightarrow> RP2040 \<Rightarrow> 8 word \<Rightarrow> world \<Rightarrow> fault + (esp_err_t \<times> world)" where
  "rp2040_set_bootloader_ctrl R device action w =
     (if fw_version device \<noteq> 0xFF then Inr (ESP_FAIL, w)
      else rp2040_write_reg device (R RP2040_BL_REG_BL_CTRL) [action] w)"

definition rp2040_reboot_to_bootloader :: "regmap \<Rightarrow> RP2040 \<Rightarrow> world \<Rightarrow> fault + (esp_err_t \<times> world)" where
  "rp2040_reboot_to_bootloader R device w =
     (if fw_version device < 0x01 \<or> fw_version device = 0xFF then Inr (ESP_FAIL, w)
      else rp2040_write_reg device (R RP2040_REG_BL_TRIGGER) [0xBE] w)"

subsection \<open>GPIO\<close>

text \<open>
  \<open>_gpio_direction >> gpio\<close> shifts an \<open>int\<close> and \<open>1UL << gpio\<close> an \<open>unsigned long\<close>;
  both types are 32 bits wide on the ESP32, and a shift by 32 or more is undefined.
  The result of \<open>|=\<close> and \<open>&=\<close> is converted back to the byte.
\<close>

definition rp2040_get_gpio_dir ::
    "regmap \<Rightarrow> RP2040 \<Rightarrow> 8 word \<Rightarrow> world \<Rightarrow> fault + (esp_err_t \<times> bool option \<times> RP2040 \<times> world)" where
  "rp2040_get_gpio_dir R device gpio w =
     (if fw_version device < 0x01 \<or> fw_version device = 0xFF then Inr (ESP_FAIL, None, device, w)
      else (case rp2040_read_reg device (R RP2040_REG_GPIO_DIR) 1 w of
              Inl f \<Rightarrow> Inl f
            | Inr (res, bytes, w') \<Rightarrow>
                if res \<noteq> ESP_OK then Inr (res, None, device, w')
                else (let device' = device\<lparr>gpio_direction := le_word bytes\<rparr>
                      in if 32 \<le> unat gpio then Inl Undefined
                         else Inr (ESP_OK,
                                   Some (drop_bit (unat gpio) (ucast (gpio_direction device') :: 32 word)
                                           AND 0x01 \<noteq> 0),
                                   device', w'))))"

definition rp2040_set_gpio_dir ::
    "regmap \<Rightarrow> RP2040 \<Rightarrow> 8 word \<Rightarrow> bool \<Rightarrow> world \<Rightarrow> fault + (esp_err_t \<times> RP2040 \<times> world)" where
  "rp2040_set_gpio_dir R device gpio direction w =
     (if fw_version device < 0x01 \<or> fw_version device = 0xFF then Inr (ESP_FAIL, device, w)
      else if 32 \<le> unat gpio then Inl Undefined
      else (let device' =
                  (if direction
                   then device\<lparr>gpio_direction :=
                          ucast ((ucast (gpio_direction device) :: 32 word) OR push_bit (unat gpio) 1)\<rparr>
                   else device\<lparr>gpio_direction :=
                          ucast ((ucast (gpio_direction device) :: 32 word)
                                   AND NOT (push_bit (unat gpio) 1))\<rparr>)
            in (case rp2040_write_reg device' (R RP2040_REG_GPIO_DIR) [gpio_direction device'] w of
                  Inl f \<Rightarrow> Inl f
                | Inr (res, w') \<Rightarrow> Inr (res, device', w'))))"

definition rp2040_get_gpio_value ::
    "regmap \<Rightarrow> RP2040 \<Rightarrow> 8 word \<Rightarrow> world \<Rightarrow> fault + (esp_err_t \<times> bool option \<times> world)" where
  "rp2040_get_gpio_value R device gpio w =
     (if fw_version device < 0x01 \<or> fw_version device = 0xFF then Inr (ESP_FAIL, None, w)
      else (case rp2040_read_reg device (R RP2040_REG_GPIO_IN) 1 w of
              Inl f \<Rightarrow> Inl f
            | Inr (res, bytes, w') \<Rightarrow>
                if res \<noteq> ESP_OK then Inr (res, None, w')
                else (let reg_value = (le_word bytes :: 8 word)
                      in if 32 \<le> unat gpio then Inl Undefined
                         else Inr (ESP_OK,
                                   Some (drop_bit (unat gpio) (ucast reg_value :: 32 word) AND 0x01 \<noteq> 0),
                                   w'))))"

definition rp2040_set_gpio_value ::
    "regmap \<Rightarrow> RP2040 \<Rightarrow> 8 word \<Rightarrow> bool \<Rightarrow> world \<Rightarrow> fault + (esp_err_t \<times> RP2040 \<times> world)" where
  "rp2040_set_gpio_value R device gpio val w =
     (if fw_version device < 0x01 \<or> fw_version device = 0xFF then Inr (ESP_FAIL, device, w)
      else if 32 \<le> unat gpio then Inl Undefined
      else (let device' =
                  (if val
                   then device\<lparr>gpio_value :=
                          ucast ((ucast (gpio_value device) :: 32 word) OR push_bit (unat gpio) 1)\<rparr>
                   else device\<lparr>gpio_value :=
                          ucast ((ucast (gpio_value device) :: 32 word)
                                   AND NOT (push_bit (unat gpio) 1))\<rparr>)
            in (case rp2040_write_reg device' (R RP2040_REG_GPIO_OUT) [gpio_value device'] w of
                  Inl f \<Rightarrow> Inl f
                | Inr (res, w') \<Rightarrow> Inr (res, device', w'))))"

subsection \<open>Backlight, FPGA, buttons, identifier\<close>

definition rp2040_get_lcd_backlight ::
    "regmap \<Rightarrow> RP2040 \<Rightarrow> world \<Rightarrow> fault + (esp_err_t \<times> 8 word list \<times> world)" where
  "rp2040_get_lcd_backlight R device w =
     (if fw_version device < 0x01 \<or> fw_version device = 0xFF then Inr (ESP_FAIL, [], w)
      else rp2040_read_reg device (R RP2040_REG_LCD_BACKLIGHT) 1 w)"

text \<open>The source returns \<open>ESP_OK\<close> here, with the comment ``Ignore if unsupported''.\<close>

definition rp2040_set_lcd_backlight :: "regmap \<Rightarrow> RP2040 \<Rightarrow> 8 word \<Rightarrow> world \<Rightarrow> fault + (esp_err_t \<times> world)" where
  "rp2040_set_lcd_backlight R device brightness w =
     (if fw_version device < 0x01 \<or> fw_version device = 0xFF then Inr (ESP_OK, w)
      else rp2040_write_reg device (R RP2040_REG_LCD_BACKLIGHT) [brightness] w)"

definition rp2040_set_fpga :: "regmap \<Rightarrow> RP2040 \<Rightarrow> bool \<Rightarrow> world \<Rightarrow> fault + (esp_err_t \<times> world)" where
  "rp2040_set_fpga R device enabled w =
     (if fw_version device < 0x01 \<or> fw_version device = 0xFF then Inr (ESP_FAIL, w)
      else rp2040_write_reg device (R RP2040_REG_FPGA) [if enabled then 0x01 else 0x00] w)"

definition rp2040_set_fpga_loopback ::
    "regmap \<Rightarrow> RP2040 \<Rightarrow> bool \<Rightarrow> bool \<Rightarrow> world \<Rightarrow> fault + (esp_err_t \<times> world)" where
  "rp2040_set_fpga_loopback R device enabled loopback w =
     (if fw_version device < 0x01 \<or> fw_version device = 0xFF then Inr (ESP_FAIL, w)
      else rp2040_write_reg device (R RP2040_REG_FPGA)
             [(if enabled then 0x01 else 0x00) OR (if loopback then 0x02 else 0x00)] w)"

definition rp2040_read_buttons ::
    "regmap \<Rightarrow> RP2040 \<Rightarrow> world \<Rightarrow> fault + (esp_err_t \<times> 8 word list \<times> world)" where
  "rp2040_read_buttons R device w =
     (if fw_version device < 0x01 \<or> fw_version device = 0xFF then Inr (ESP_FAIL, [], w)
      else rp2040_read_reg device (R RP2040_REG_INPUT1) 2 w)"

definition rp2040_get_uid ::
    "regmap \<Rightarrow> RP2040 \<Rightarrow> world \<Rightarrow> fault + (esp_err_t \<times> 8 word list \<times> world)" where
  "rp2040_get_uid R device w =
     (if fw_version device < 0x01 \<or> fw_version device = 0xFF then Inr (ESP_FAIL, [], w)
      else rp2040_read_reg device (R RP2040_REG_UID0) 8 w)"

subsection \<open>Single-precision arithmetic\<close>

text \<open>
  The target's \<open>float\<close> is the IEEE 754 binary32 format, and an expression of type
  \<open>float\<close> is evaluated in that format, every operation rounding its exact result to
  the nearest value of 24 significant bits, a tie going to the even significand. A value
  is a pair \<open>(m, e)\<close> of integers that stands for \<open>m * 2 ^ e\<close> (\<open>valof\<close>).
  \<open>round_ratio a b\<close> rounds the ratio \<open>a / b\<close> of two positive integers:
  \<open>floor_log2 a b\<close> is the exponent of its leading bit, and the significand is the
  integer nearest to the ratio scaled to 24 bits. The exponent is not bounded here: the
  values that the driver computes, \<open>3.3 / 4096\<close> and the voltages up to
  \<open>65535 * (3.3 / 4096) * 2\<close>, are far from overflow and from the subnormal range, and
  none is negative. An integer is converted by rounding it, a decimal literal by rounding
  the ratio that it denotes.
\<close>

function bitlen :: "int \<Rightarrow> int" where
  "bitlen n = (if n \<le> 0 then 0 else 1 + bitlen (n div 2))"
  by pat_completeness auto
termination
  by (relation "measure nat") auto

declare bitlen.simps [simp del]

definition floor_log2 :: "int \<Rightarrow> int \<Rightarrow> int" where
  "floor_log2 a b =
     (let e0 = bitlen a - bitlen b
      in if b * 2 ^ nat e0 \<le> a * 2 ^ nat (- e0) then e0 else e0 - 1)"

definition nearest_even :: "int \<Rightarrow> int \<Rightarrow> int" where
  "nearest_even num den =
     (if 2 * (num mod den) < den then num div den
      else if den < 2 * (num mod den) then num div den + 1
      else if even (num div den) then num div den else num div den + 1)"

type_synonym binary32 = "int \<times> int"

definition round_ratio :: "int \<Rightarrow> int \<Rightarrow> binary32" where
  "round_ratio a b =
     (if a \<le> 0 \<or> b \<le> 0 then (0, 0)
      else (let s = floor_log2 a b - 23
            in (nearest_even (a * 2 ^ nat (- s)) (b * 2 ^ nat s), s)))"

definition valof :: "binary32 \<Rightarrow> rat" where
  "valof x = of_int (fst x) * 2 powi (snd x)"

definition f32_of_int :: "int \<Rightarrow> binary32" where
  "f32_of_int n = round_ratio n 1"

definition f32_div :: "binary32 \<Rightarrow> binary32 \<Rightarrow> binary32" where
  "f32_div x y =
     round_ratio (fst x * 2 ^ nat (snd x - snd y)) (fst y * 2 ^ nat (snd y - snd x))"

definition f32_mul :: "binary32 \<Rightarrow> binary32 \<Rightarrow> binary32" where
  "f32_mul x y =
     (case round_ratio (fst x * fst y) 1 of (m, e) \<Rightarrow> (m, e + snd x + snd y))"

subsection \<open>Analog readings\<close>

text \<open>
  \<open>const float conversion_factor = 3.3f / (1 << 12)\<close>: the literal \<open>3.3f\<close> is the
  binary32 value nearest to \<open>33 / 10\<close>, the \<open>int\<close> \<open>1 << 12\<close> is converted to
  \<open>float\<close>, and the division is a single-precision one.
\<close>

definition conversion_factor :: binary32 where
  "conversion_factor = f32_div (round_ratio 33 10) (f32_of_int (push_bit 12 1))"

definition rp2040_read_vbat_raw ::
    "regmap \<Rightarrow> RP2040 \<Rightarrow> world \<Rightarrow> fault + (esp_err_t \<times> 8 word list \<times> world)" where
  "rp2040_read_vbat_raw R device w =
     (if fw_version device < 0x02 \<or> fw_version device = 0xFF then Inr (ESP_FAIL, [], w)
      else rp2040_read_reg device (R RP2040_REG_ADC_VALUE_VBAT_LO) 2 w)"

text \<open>
  \<open>*value = raw * conversion_factor * 2\<close>: \<open>raw\<close> is the \<open>uint16_t\<close> of two bytes that
  the read has filled; it is promoted to \<open>int\<close> and converted to \<open>float\<close> for the first
  product, a single-precision one, and the \<open>int\<close> \<open>2\<close> is converted to \<open>float\<close> for the
  second. On a failed read nothing is stored through \<open>value\<close>.
\<close>

definition rp2040_read_vbat ::
    "regmap \<Rightarrow> RP2040 \<Rightarrow> world \<Rightarrow> fault + (esp_err_t \<times> binary32 option \<times> world)" where
  "rp2040_read_vbat R device w =
     (case rp2040_read_vbat_raw R device w of
        Inl f \<Rightarrow> Inl f
      | Inr (res, bytes, w') \<Rightarrow>
          if res \<noteq> ESP_OK then Inr (res, None, w')
          else Inr (res,
                 Some (f32_mul (f32_mul (f32_of_int (uint (le_word bytes :: 16 word))) conversion_factor)
                         (f32_of_int 2)),
                 w'))"

definition rp2040_read_vusb_raw ::
    "regmap \<Rightarrow> RP2040 \<Rightarrow> world \<Rightarrow> fault + (esp_err_t \<times> 8 word list \<times> world)" where
  "rp2040_read_vusb_raw R device w =
     (if fw_version device < 0x02 \<or> fw_version device = 0xFF then Inr (ESP_FAIL, [], w)
      else rp2040_read_reg device (R RP2040_REG_ADC_VALUE_VUSB_LO) 2 w)"

definition rp2040_read_vusb ::
    "regmap \<Rightarrow> RP2040 \<Rightarrow> world \<Rightarrow> fault + (esp_err_t \<times> binary32 option \<times> world)" where
  "rp2040_read_vusb R device w =
     (case rp2040_read_vusb_raw R device w of
        Inl f \<Rightarrow> Inl f
      | Inr (res, bytes, w') \<Rightarrow>
          if res \<noteq> ESP_OK then Inr (res, None, w')
          else Inr (res,
                 Some (f32_mul (f32_mul (f32_of_int (uint (le_word bytes :: 16 word))) conversion_factor)
                         (f32_of_int 2)),
                 w'))"

definition rp2040_read_temp ::
    "regmap \<Rightarrow> RP2040 \<Rightarrow> world \<Rightarrow> fault + (esp_err_t \<times> 8 word list \<times> world)" where
  "rp2040_read_temp R device w =
     (if fw_version device < 0x02 \<or> fw_version device = 0xFF then Inr (ESP_FAIL, [], w)
      else rp2040_read_reg device (R RP2040_REG_ADC_VALUE_TEMP_LO) 2 w)"

subsection \<open>Charging, USB, WebUSB, crash state, infrared, reset\<close>

definition rp2040_get_charging ::
    "regmap \<Rightarrow> RP2040 \<Rightarrow> world \<Rightarrow> fault + (esp_err_t \<times> 8 word list \<times> world)" where
  "rp2040_get_charging R device w =
     (if fw_version device < 0x02 \<or> fw_version device = 0xFF then Inr (ESP_FAIL, [], w)
      else rp2040_read_reg device (R RP2040_REG_CHARGING_STATE) 1 w)"

definition rp2040_get_usb ::
    "regmap \<Rightarrow> RP2040 \<Rightarrow> world \<Rightarrow> fault + (esp_err_t \<times> 8 word list \<times> world)" where
  "rp2040_get_usb R device w =
     (if fw_version device < 0x01 \<or> fw_version device = 0xFF then Inr (ESP_FAIL, [], w)
      else rp2040_read_reg device (R RP2040_REG_USB) 1 w)"

definition rp2040_get_webusb_mode ::
    "regmap \<Rightarrow> RP2040 \<Rightarrow> world \<Rightarrow> fault + (esp_err_t \<times> 8 word list \<times> world)" where
  "rp2040_get_webusb_mode R device w =
     (if fw_version device < 0x02 \<or> fw_version device = 0xFF then Inr (ESP_FAIL, [], w)
      else rp2040_read_reg device (R RP2040_REG_WEBUSB_MODE) 1 w)"

definition rp2040_exit_webusb_mode :: "regmap \<Rightarrow> RP2040 \<Rightarrow> world \<Rightarrow> fault + (esp_err_t \<times> world)" where
  "rp2040_exit_webusb_mode R device w =
     (if fw_version device < 0x0E \<or> fw_version device = 0xFF then Inr (ESP_FAIL, w)
      else rp2040_write_reg device (R RP2040_REG_WEBUSB_MODE) [0] w)"

definition rp2040_get_crash_state ::
    "regmap \<Rightarrow> RP2040 \<Rightarrow> world \<Rightarrow> fault + (esp_err_t \<times> 8 word list \<times> world)" where
  "rp2040_get_crash_state R device w =
     (if fw_version device < 0x06 \<or> fw_version device = 0xFF then Inr (ESP_FAIL, [], w)
      else rp2040_read_reg device (R RP2040_REG_CRASH_DEBUG) 1 w)"

definition rp2040_ir_send ::
    "regmap \<Rightarrow> RP2040 \<Rightarrow> 16 word \<Rightarrow> 8 word \<Rightarrow> world \<Rightarrow> fault + (esp_err_t \<times> world)" where
  "rp2040_ir_send R device address command w =
     (if fw_version device < 0x06 \<or> fw_version device = 0xFF then Inr (ESP_FAIL, w)
      else rp2040_write_reg device (R RP2040_REG_IR_ADDRESS_LO)
             [ucast (address AND 0xFF), ucast (drop_bit 8 address), command, 0x01] w)"

definition rp2040_get_reset_attempted ::
    "regmap \<Rightarrow> RP2040 \<Rightarrow> world \<Rightarrow> fault + (esp_err_t \<times> 8 word list \<times> world)" where
  "rp2040_get_reset_attempted R device w =
     (if fw_version device < 0x08 \<or> fw_version device = 0xFF then Inr (ESP_FAIL, [], w)
      else rp2040_read_reg device (R RP2040_REG_RESET_ATTEMPTED) 1 w)"

definition rp2040_set_reset_attempted :: "regmap \<Rightarrow> RP2040 \<Rightarrow> 8 word \<Rightarrow> world \<Rightarrow> fault + (esp_err_t \<times> world)" where
  "rp2040_set_reset_attempted R device reset_attempted w =
     (if fw_version device < 0x08 \<or> fw_version device = 0xFF then Inr (ESP_FAIL, w)
      else rp2040_write_reg device (R RP2040_REG_RESET_ATTEMPTED) [reset_attempted] w)"

definition rp2040_set_reset_lock :: "regmap \<Rightarrow> RP2040 \<Rightarrow> 8 word \<Rightarrow> world \<Rightarrow> fault + (esp_err_t \<times> world)" where
  "rp2040_set_reset_lock R device lock w =
     (if fw_version device < 0x08 \<or> fw_version device = 0xFF then Inr (ESP_FAIL, w)
      else rp2040_write_reg device (R RP2040_REG_RESET_LOCK) [lock] w)"

subsection \<open>WS2812 and mass storage\<close>

definition rp2040_set_ws2812_mode :: "regmap \<Rightarrow> RP2040 \<Rightarrow> 8 word \<Rightarrow> world \<Rightarrow> fault + (esp_err_t \<times> world)" where
  "rp2040_set_ws2812_mode R device mode w =
     (if fw_version device < 0x09 \<or> fw_version device = 0xFF then Inr (ESP_FAIL, w)
      else rp2040_write_reg device (R RP2040_REG_WS2812_MODE) [mode] w)"

definition rp2040_set_ws2812_data ::
    "regmap \<Rightarrow> RP2040 \<Rightarrow> 8 word \<Rightarrow> 32 word \<Rightarrow> world \<Rightarrow> fault + (esp_err_t \<times> world)" where
  "rp2040_set_ws2812_data R device position val w =
     (if fw_version device < 0x09 \<or> fw_version device = 0xFF then Inr (ESP_FAIL, w)
      else if position \<ge> 10 then Inr (ESP_FAIL, w)
      else rp2040_write_reg device (R RP2040_REG_WS2812_LED0_DATA0 + position * 4) (le_bytes 4 val) w)"

definition rp2040_set_ws2812_length :: "regmap \<Rightarrow> RP2040 \<Rightarrow> 8 word \<Rightarrow> world \<Rightarrow> fault + (esp_err_t \<times> world)" where
  "rp2040_set_ws2812_length R device len w =
     (if fw_version device < 0x09 \<or> fw_version device = 0xFF then Inr (ESP_FAIL, w)
      else rp2040_write_reg device (R RP2040_REG_WS2812_LENGTH) [len] w)"

definition rp2040_ws2812_trigger :: "regmap \<Rightarrow> RP2040 \<Rightarrow> world \<Rightarrow> fault + (esp_err_t \<times> world)" where
  "rp2040_ws2812_trigger R device w =
     (if fw_version device < 0x09 \<or> fw_version device = 0xFF then Inr (ESP_FAIL, w)
      else rp2040_write_reg device (R RP2040_REG_WS2812_TRIGGER) [0] w)"

definition rp2040_set_msc_control :: "regmap \<Rightarrow> RP2040 \<Rightarrow> 8 word \<Rightarrow> world \<Rightarrow> fault + (esp_err_t \<times> world)" where
  "rp2040_set_msc_control R device val w =
     (if fw_version device < 0x0D \<or> fw_version device = 0xFF then Inr (ESP_FAIL, w)
      else rp2040_write_reg device (R RP2040_REG_MSC_CONTROL) [val] w)"

definition rp2040_get_msc_state ::
    "regmap \<Rightarrow> RP2040 \<Rightarrow> world \<Rightarrow> fault + (esp_err_t \<times> 8 word list \<times> world)" where
  "rp2040_get_msc_state R device w =
     (if fw_version device < 0x0D \<or> fw_version device = 0xFF then Inr (ESP_FAIL, [], w)
      else rp2040_read_reg device (R RP2040_REG_MSC_STATE) 1 w)"

definition rp2040_set_msc_block_count ::
    "regmap \<Rightarrow> RP2040 \<Rightarrow> 8 word \<Rightarrow> 32 word \<Rightarrow> world \<Rightarrow> fault + (esp_err_t \<times> world)" where
  "rp2040_set_msc_block_count R device lun val w =
     (if fw_version device < 0x0D \<or> fw_version device = 0xFF then Inr (ESP_FAIL, w)
      else if lun > 1 then Inr (ESP_FAIL, w)
      else rp2040_write_reg device
             (if lun = 1 then R RP2040_REG_MSC1_BLOCK_COUNT_LO_A else R RP2040_REG_MSC0_BLOCK_COUNT_LO_A)
             (le_bytes 4 val) w)"

definition rp2040_set_msc_block_size ::
    "regmap \<Rightarrow> RP2040 \<Rightarrow> 8 word \<Rightarrow> 16 word \<Rightarrow> world \<Rightarrow> fault + (esp_err_t \<times> world)" where
  "rp2040_set_msc_block_size R device lun val w =
     (if fw_version device < 0x0D \<or> fw_version device = 0xFF then Inr (ESP_FAIL, w)
      else if lun > 1 then Inr (ESP_FAIL, w)
      else rp2040_write_reg device
             (if lun = 1 then R RP2040_REG_MSC1_BLOCK_SIZE_LO else R RP2040_REG_MSC0_BLOCK_SIZE_LO)
             (le_bytes 2 val) w)"

subsection \<open>Initialisation\<close>

text \<open>
  What the collaborators of \<open>rp2040_init\<close> answer: \<open>i2c_master_bus_add_device\<close>
  (wrapped in \<open>ESP_ERROR_CHECK\<close>, which aborts on any result but \<open>ESP_OK\<close>),
  \<open>xSemaphoreCreateBinary\<close> (\<open>False\<close> for \<open>NULL\<close>), \<open>gpio_isr_handler_add\<close> and
  \<open>gpio_config\<close>.
\<close>

record init_env =
  add_device_result :: esp_err_t
  semaphore_created :: bool
  isr_handler_add_result :: esp_err_t
  gpio_config_result :: esp_err_t

text \<open>
  \<open>rp2040_get_firmware_version\<close> is handed \<open>&device->_fw_version\<close>, and the two
  reads that follow fill \<open>_gpio_direction\<close> and \<open>_gpio_value\<close> in place. A binary
  semaphore is created empty. \<open>1LL << pin_interrupt\<close> is defined for shifts below 63.
\<close>

definition rp2040_init ::
    "regmap \<Rightarrow> init_env \<Rightarrow> RP2040 \<Rightarrow> world \<Rightarrow> fault + (esp_err_t \<times> RP2040 \<times> world)" where
  "rp2040_init R env device w =
     (if add_device_result env \<noteq> ESP_OK then Inl Aborted
      else (case rp2040_get_firmware_version R device w of
        Inl f \<Rightarrow> Inl f
      | Inr (res, version, device1, w1) \<Rightarrow>
          if res \<noteq> ESP_OK then Inr (res, device1, w1)
          else if fw_version device1 < 0x01 then Inr (ESP_ERR_INVALID_VERSION, device1, w1)
          else (case rp2040_read_reg device1 (R RP2040_REG_GPIO_DIR) 1 w1 of
            Inl f \<Rightarrow> Inl f
          | Inr (res, bytes, w2) \<Rightarrow>
              if res \<noteq> ESP_OK then Inr (res, device1, w2)
              else (let device2 = device1\<lparr>gpio_direction := le_word bytes\<rparr> in
                case rp2040_read_reg device2 (R RP2040_REG_GPIO_OUT) 1 w2 of
                  Inl f \<Rightarrow> Inl f
                | Inr (res, bytes, w3) \<Rightarrow>
                    if res \<noteq> ESP_OK then Inr (res, device2, w3)
                    else (let device3 = device2\<lparr>gpio_value := le_word bytes\<rparr> in
                      if \<not> semaphore_created env then Inr (ESP_ERR_NO_MEM, device3, w3)
                      else (let w4 = w3\<lparr>intr_trigger := False\<rparr> in
                        if pin_interrupt device3 \<ge> 0 then
                          (if isr_handler_add_result env \<noteq> ESP_OK
                           then Inr (isr_handler_add_result env, device3, w4)
                           else if pin_interrupt device3 \<ge> 63 then Inl Undefined
                           else if gpio_config_result env \<noteq> ESP_OK
                           then Inr (gpio_config_result env, device3, w4)
                           else Inr (ESP_OK, device3,
                                     xSemaphoreGive INTR_TRIGGER (w4\<lparr>intr_task_created := True\<rparr>)))
                        else Inr (ESP_OK, device3, w4)))))))"

subsection \<open>The operations as one type\<close>

text \<open>
  A call of a gated accessor with its arguments. \<open>call\<close> runs it and keeps the result
  code, the structure and the world; what the accessor stores through its result
  pointer is dropped.
\<close>

datatype operation =
    Get_bootloader_version
  | Get_bootloader_state
  | Set_bootloader_ctrl "8 word"
  | Reboot_to_bootloader
  | Get_gpio_dir "8 word"
  | Set_gpio_dir "8 word" bool
  | Get_gpio_value "8 word"
  | Set_gpio_value "8 word" bool
  | Get_lcd_backlight
  | Set_lcd_backlight "8 word"
  | Set_fpga bool
  | Set_fpga_loopback bool bool
  | Read_buttons
  | Get_uid
  | Read_vbat_raw
  | Read_vbat
  | Read_vusb_raw
  | Read_vusb
  | Read_temp
  | Get_charging
  | Get_usb
  | Get_webusb_mode
  | Exit_webusb_mode
  | Get_crash_state
  | Ir_send "16 word" "8 word"
  | Get_reset_attempted
  | Set_reset_attempted "8 word"
  | Set_reset_lock "8 word"
  | Set_ws2812_mode "8 word"
  | Set_ws2812_data "8 word" "32 word"
  | Set_ws2812_length "8 word"
  | Ws2812_trigger
  | Set_msc_control "8 word"
  | Get_msc_state
  | Set_msc_block_count "8 word" "32 word"
  | Set_msc_block_size "8 word" "16 word"

definition keep_device ::
    "RP2040 \<Rightarrow> fault + (esp_err_t \<times> 'a \<times> world) \<Rightarrow> fault + (esp_err_t \<times> RP2040 \<times> world)" where
  "keep_device device r =
     (case r of Inl f \<Rightarrow> Inl f | Inr (res, out, w') \<Rightarrow> Inr (res, device, w'))"

definition no_output ::
    "RP2040 \<Rightarrow> fault + (esp_err_t \<times> world) \<Rightarrow> fault + (esp_err_t \<times> RP2040 \<times> world)" where
  "no_output device r =
     (case r of Inl f \<Rightarrow> Inl f | Inr (res, w') \<Rightarrow> Inr (res, device, w'))"

fun call :: "regmap \<Rightarrow> operation \<Rightarrow> RP2040 \<Rightarrow> world \<Rightarrow> fault + (esp_err_t \<times> RP2040 \<times> world)" where
  "call R Get_bootloader_version device w = keep_device device (rp2040_get_bootloader_version R device w)"
| "call R Get_bootloader_state device w = keep_device device (rp2040_get_bootloader_state R device w)"
| "call R (Set_bootloader_ctrl action) device w = no_output device (rp2040_set_bootloader_ctrl R device action w)"
| "call R Reboot_to_bootloader device w = no_output device (rp2040_reboot_to_bootloader R device w)"
| "call R (Get_gpio_dir gpio) device w =
     (case rp2040_get_gpio_dir R device gpio w of
        Inl f \<Rightarrow> Inl f
      | Inr (res, direction, device', w') \<Rightarrow> Inr (res, device', w'))"
| "call R (Set_gpio_dir gpio direction) device w = rp2040_set_gpio_dir R device gpio direction w"
| "call R (Get_gpio_value gpio) device w = keep_device device (rp2040_get_gpio_value R device gpio w)"
| "call R (Set_gpio_value gpio val) device w = rp2040_set_gpio_value R device gpio val w"
| "call R Get_lcd_backlight device w = keep_device device (rp2040_get_lcd_backlight R device w)"
| "call R (Set_lcd_backlight brightness) device w = no_output device (rp2040_set_lcd_backlight R device brightness w)"
| "call R (Set_fpga enabled) device w = no_output device (rp2040_set_fpga R device enabled w)"
| "call R (Set_fpga_loopback enabled loopback) device w =
     no_output device (rp2040_set_fpga_loopback R device enabled loopback w)"
| "call R Read_buttons device w = keep_device device (rp2040_read_buttons R device w)"
| "call R Get_uid device w = keep_device device (rp2040_get_uid R device w)"
| "call R Read_vbat_raw device w = keep_device device (rp2040_read_vbat_raw R device w)"
| "call R Read_vbat device w = keep_device device (rp2040_read_vbat R device w)"
| "call R Read_vusb_raw device w = keep_device device (rp2040_read_vusb_raw R device w)"
| "call R Read_vusb device w = keep_device device (rp2040_read_vusb R device w)"
| "call R Read_temp device w = keep_device device (rp2040_read_temp R device w)"
| "call R Get_charging device w = keep_device device (rp2040_get_charging R device w)"
| "call R Get_usb device w = keep_device device (rp2040_get_usb R device w)"
| "call R Get_webusb_mode device w = keep_device device (rp2040_get_webusb_mode R device w)"
| "call R Exit_webusb_mode device w = no_output device (rp2040_exit_webusb_mode R device w)"
| "call R Get_crash_state device w = keep_device device (rp2040_get_crash_state R device w)"
| "call R (Ir_send address command) device w = no_output device (rp2040_ir_send R device address command w)"
| "call R Get_reset_attempted device w = keep_device device (rp2040_get_reset_attempted R device w)"
| "call R (Set_reset_attempted reset_attempted) device w =
     no_output device (rp2040_set_reset_attempted R device reset_attempted w)"
| "call R (Set_reset_lock lock) device w = no_output device (rp2040_set_reset_lock R device lock w)"
| "call R (Set_ws2812_mode mode) device w = no_output device (rp2040_set_ws2812_mode R device mode w)"
| "call R (Set_ws2812_data position val) device w =
     no_output device (rp2040_set_ws2812_data R device position val w)"
| "call R (Set_ws2812_length len) device w = no_output device (rp2040_set_ws2812_length R device len w)"
| "call R Ws2812_trigger device w = no_output device (rp2040_ws2812_trigger R device w)"
| "call R (Set_msc_control val) device w = no_output device (rp2040_set_msc_control R device val w)"
| "call R Get_msc_state device w = keep_device device (rp2040_get_msc_state R device w)"
| "call R (Set_msc_block_count lun val) device w =
     no_output device (rp2040_set_msc_block_count R device lun val w)"
| "call R (Set_msc_block_size lun val) device w =
     no_output device (rp2040_set_msc_block_size R device lun val w)"

text \<open>
  The gate table as the specification gives it: the minimum version of each
  operation family, \<open>None\<close> for the family that requires the bootloader. The two FPGA
  accessors are not in the table; the source gates them like their neighbours, at
  \<open>0x01\<close>.
\<close>

fun min_version :: "operation \<Rightarrow> 8 word option" where
  "min_version Get_bootloader_version = None"
| "min_version Get_bootloader_state = None"
| "min_version (Set_bootloader_ctrl action) = None"
| "min_version Reboot_to_bootloader = Some 0x01"
| "min_version (Get_gpio_dir gpio) = Some 0x01"
| "min_version (Set_gpio_dir gpio direction) = Some 0x01"
| "min_version (Get_gpio_value gpio) = Some 0x01"
| "min_version (Set_gpio_value gpio val) = Some 0x01"
| "min_version Get_lcd_backlight = Some 0x01"
| "min_version (Set_lcd_backlight brightness) = Some 0x01"
| "min_version (Set_fpga enabled) = Some 0x01"
| "min_version (Set_fpga_loopback enabled loopback) = Some 0x01"
| "min_version Get_usb = Some 0x01"
| "min_version Read_buttons = Some 0x01"
| "min_version Get_uid = Some 0x01"
| "min_version Read_vbat_raw = Some 0x02"
| "min_version Read_vbat = Some 0x02"
| "min_version Read_vusb_raw = Some 0x02"
| "min_version Read_vusb = Some 0x02"
| "min_version Read_temp = Some 0x02"
| "min_version Get_charging = Some 0x02"
| "min_version Get_webusb_mode = Some 0x02"
| "min_version Get_crash_state = Some 0x06"
| "min_version (Ir_send address command) = Some 0x06"
| "min_version Get_reset_attempted = Some 0x08"
| "min_version (Set_reset_attempted reset_attempted) = Some 0x08"
| "min_version (Set_reset_lock lock) = Some 0x08"
| "min_version (Set_ws2812_mode mode) = Some 0x09"
| "min_version (Set_ws2812_data position val) = Some 0x09"
| "min_version (Set_ws2812_length len) = Some 0x09"
| "min_version Ws2812_trigger = Some 0x09"
| "min_version (Set_msc_control val) = Some 0x0D"
| "min_version Get_msc_state = Some 0x0D"
| "min_version (Set_msc_block_count lun val) = Some 0x0D"
| "min_version (Set_msc_block_size lun val) = Some 0x0D"
| "min_version Exit_webusb_mode = Some 0x0E"

text \<open>The check of the specification's capability gate, on the cached version \<open>v\<close>.\<close>

definition gate_allows :: "operation \<Rightarrow> 8 word \<Rightarrow> bool" where
  "gate_allows opn v =
     (case min_version opn of
        None \<Rightarrow> v = 0xFF
      | Some v_min \<Rightarrow> v \<ge> v_min \<and> v \<noteq> 0xFF)"

text \<open>The one accessor whose denial is \<open>ESP_OK\<close>.\<close>

fun ignored_if_unsupported :: "operation \<Rightarrow> bool" where
  "ignored_if_unsupported (Set_lcd_backlight brightness) = True"
| "ignored_if_unsupported opn = False"

text \<open>
  The arguments with which an accessor that has passed its gate goes on to the bus:
  within the accessor's own bound, and within the width of the shifted operand.
\<close>

fun arguments_in_range :: "operation \<Rightarrow> bool" where
  "arguments_in_range (Get_gpio_dir gpio) = (unat gpio < 32)"
| "arguments_in_range (Set_gpio_dir gpio direction) = (unat gpio < 32)"
| "arguments_in_range (Get_gpio_value gpio) = (unat gpio < 32)"
| "arguments_in_range (Set_gpio_value gpio val) = (unat gpio < 32)"
| "arguments_in_range (Set_ws2812_data position val) = (position < 10)"
| "arguments_in_range (Set_msc_block_count lun val) = (lun \<le> 1)"
| "arguments_in_range (Set_msc_block_size lun val) = (lun \<le> 1)"
| "arguments_in_range opn = True"

text \<open>
  The conversion of a raw code as the specification gives it,
  \<open>raw * (3.3 / 4096) * 2\<close>, in exact arithmetic.
\<close>

definition spec_voltage :: "16 word \<Rightarrow> rat" where
  "spec_voltage raw = of_int (uint raw) * (33 / 10 / 4096) * 2"

subsection \<open>Example inputs\<close>

text \<open>
  A register numbering, a structure with the bus semaphore configured and no interrupt
  pin, and a world whose registers are all zero, with a free bus semaphore and the
  given transport results.
\<close>

fun example_regs :: regmap where
  "example_regs RP2040_REG_FW_VER = 0"
| "example_regs RP2040_REG_GPIO_DIR = 1"
| "example_regs RP2040_REG_GPIO_IN = 2"
| "example_regs RP2040_REG_GPIO_OUT = 3"
| "example_regs RP2040_REG_LCD_BACKLIGHT = 4"
| "example_regs RP2040_REG_FPGA = 5"
| "example_regs RP2040_REG_INPUT1 = 6"
| "example_regs RP2040_REG_ADC_VALUE_VUSB_LO = 11"
| "example_regs RP2040_REG_ADC_VALUE_VBAT_LO = 13"
| "example_regs RP2040_REG_USB = 15"
| "example_regs RP2040_REG_BL_TRIGGER = 16"
| "example_regs RP2040_REG_WEBUSB_MODE = 17"
| "example_regs RP2040_REG_CRASH_DEBUG = 18"
| "example_regs RP2040_REG_RESET_LOCK = 19"
| "example_regs RP2040_REG_RESET_ATTEMPTED = 20"
| "example_regs RP2040_REG_CHARGING_STATE = 21"
| "example_regs RP2040_REG_ADC_VALUE_TEMP_LO = 22"
| "example_regs RP2040_REG_UID0 = 24"
| "example_regs RP2040_REG_IR_ADDRESS_LO = 32"
| "example_regs RP2040_REG_WS2812_MODE = 36"
| "example_regs RP2040_REG_WS2812_TRIGGER = 37"
| "example_regs RP2040_REG_WS2812_LENGTH = 38"
| "example_regs RP2040_REG_WS2812_LED0_DATA0 = 39"
| "example_regs RP2040_REG_MSC_CONTROL = 79"
| "example_regs RP2040_REG_MSC_STATE = 80"
| "example_regs RP2040_REG_MSC0_BLOCK_COUNT_LO_A = 81"
| "example_regs RP2040_REG_MSC0_BLOCK_SIZE_LO = 85"
| "example_regs RP2040_REG_MSC1_BLOCK_COUNT_LO_A = 87"
| "example_regs RP2040_REG_MSC1_BLOCK_SIZE_LO = 91"
| "example_regs RP2040_BL_REG_BL_VER = 1"
| "example_regs RP2040_BL_REG_BL_STATE = 2"
| "example_regs RP2040_BL_REG_BL_CTRL = 3"

definition example_device :: "8 word \<Rightarrow> RP2040" where
  "example_device v =
     \<lparr>i2c_semaphore = True, pin_interrupt = - 1, fw_version = v,
      gpio_direction = 0, gpio_value = 0\<rparr>"

definition example_world :: "esp_err_t list \<Rightarrow> world" where
  "example_world es =
     \<lparr>regs = (\<lambda>r. 0), outcomes = es, log = [], lock_held = False,
      intr_trigger = False, intr_task_created = False, callbacks = []\<rparr>"

definition example_env :: init_env where
  "example_env =
     \<lparr>add_device_result = ESP_OK, semaphore_created = True,
      isr_handler_add_result = ESP_OK, gpio_config_result = ESP_OK\<rparr>"

text \<open>
  The example world with the version register reading \<open>0xFF\<close>, and the example world
  with a pending signal and the four bytes \<open>01 00 03 00\<close> at \<open>RP2040_REG_INPUT1\<close>:
  changed mask \<open>0x0003\<close>, values \<open>0x0001\<close>.
\<close>

definition example_bootloader_world :: world where
  "example_bootloader_world = (example_world [])\<lparr>regs := (\<lambda>r. 0)(0 := 0xFF)\<rparr>"

definition example_input_world :: world where
  "example_input_world =
     (example_world [])\<lparr>regs := store 6 [0x01, 0x00, 0x03, 0x00] (\<lambda>r. 0), intr_trigger := True\<rparr>"

text \<open>
  The example world with the two bytes \<open>lo\<close>, \<open>hi\<close> at \<open>RP2040_REG_ADC_VALUE_VUSB_LO\<close> and
  at \<open>RP2040_REG_ADC_VALUE_VBAT_LO\<close>: both raw codes are \<open>hi * 256 + lo\<close>.
\<close>

definition example_adc_world :: "8 word \<Rightarrow> 8 word \<Rightarrow> world" where
  "example_adc_world lo hi =
     (example_world [])\<lparr>regs := store 11 [lo, hi] (store 13 [lo, hi] (\<lambda>r. 0))\<rparr>"

section \<open>Properties\<close>

subsection \<open>What a register transaction does\<close>

lemma next_outcome_lock_held: "next_outcome (w\<lparr>lock_held := b\<rparr>) = next_outcome w"
  by (simp add: next_outcome_def)

lemma read_reg_result:
  "\<not> (i2c_semaphore device \<and> lock_held w) \<Longrightarrow>
   rp2040_read_reg device reg n w =
     Inr (next_outcome w,
          (if next_outcome w = ESP_OK then load reg n (regs w) else []),
          w\<lparr>log := log w @ [TransmitReceive [reg] n], outcomes := tl (outcomes w),
            lock_held := (if i2c_semaphore device then next_outcome w \<noteq> ESP_OK else lock_held w)\<rparr>)"
  by (auto simp: rp2040_read_reg_def i2c_master_transmit_receive_def next_outcome_lock_held Let_def)

lemma read_reg_blocked:
  "i2c_semaphore device \<Longrightarrow> lock_held w \<Longrightarrow> rp2040_read_reg device reg n w = Inl Blocked"
  by (simp add: rp2040_read_reg_def)

lemma write_reg_result:
  "\<not> (i2c_semaphore device \<and> lock_held w) \<Longrightarrow>
   rp2040_write_reg device reg val w =
     Inr (next_outcome w,
          w\<lparr>log := log w @ [Transmit (reg # val)], outcomes := tl (outcomes w),
            lock_held := (if i2c_semaphore device then next_outcome w \<noteq> ESP_OK else lock_held w),
            regs := (if next_outcome w = ESP_OK then store reg val (regs w) else regs w)\<rparr>)"
  by (auto simp: rp2040_write_reg_def i2c_master_transmit_def next_outcome_lock_held Let_def)

lemma write_reg_blocked:
  "i2c_semaphore device \<Longrightarrow> lock_held w \<Longrightarrow> rp2040_write_reg device reg val w = Inl Blocked"
  by (simp add: rp2040_write_reg_def)

lemma read_reg_lock_after:
  "i2c_semaphore device \<Longrightarrow> rp2040_read_reg device reg n w = Inr (res, bytes, w') \<Longrightarrow>
   lock_held w' = (res \<noteq> ESP_OK)"
  by (cases "lock_held w") (auto simp: read_reg_blocked read_reg_result)

lemma write_reg_lock_after:
  "i2c_semaphore device \<Longrightarrow> rp2040_write_reg device reg val w = Inr (res, w') \<Longrightarrow>
   lock_held w' = (res \<noteq> ESP_OK)"
  by (cases "lock_held w") (auto simp: write_reg_blocked write_reg_result)

text \<open>
  C2. The claim: with a bus lock configured, \<open>rp2040_read_reg\<close> and \<open>rp2040_write_reg\<close>
  release it on every exit path, so the lock is never held after either returns. The
  source returns through \<open>ESP_RETURN_ON_ERROR\<close> before it reaches \<open>xSemaphoreGive\<close>:
  with the lock configured and free, a transaction that the transport answers with
  \<open>ESP_ERR_TIMEOUT\<close> returns that code with the lock still held, and the next
  transaction never returns. (After a success the lock is free: \<open>read_reg_lock_after\<close>,
  \<open>write_reg_lock_after\<close>.)
\<close>

theorem reg_failure_keeps_lock:
  "(case rp2040_read_reg (example_device 1) 0 1 (example_world [ESP_ERR_TIMEOUT]) of
      Inl f \<Rightarrow> False
    | Inr (res, bytes, w') \<Rightarrow>
        res = ESP_ERR_TIMEOUT \<and> lock_held w' \<and>
        rp2040_read_reg (example_device 1) 0 1 w' = Inl Blocked) \<and>
   (case rp2040_write_reg (example_device 1) 0 [0] (example_world [ESP_ERR_TIMEOUT]) of
      Inl f \<Rightarrow> False
    | Inr (res, w') \<Rightarrow>
        res = ESP_ERR_TIMEOUT \<and> lock_held w' \<and>
        rp2040_write_reg (example_device 1) 0 [0] w' = Inl Blocked)"
  by (simp add: read_reg_result write_reg_result read_reg_blocked write_reg_blocked
        example_device_def example_world_def next_outcome_def)

subsection \<open>The capability gate\<close>

lemmas accessor_defs =
  rp2040_get_bootloader_version_def rp2040_get_bootloader_state_def rp2040_set_bootloader_ctrl_def
  rp2040_reboot_to_bootloader_def rp2040_get_gpio_dir_def rp2040_set_gpio_dir_def
  rp2040_get_gpio_value_def rp2040_set_gpio_value_def rp2040_get_lcd_backlight_def
  rp2040_set_lcd_backlight_def rp2040_set_fpga_def rp2040_set_fpga_loopback_def
  rp2040_read_buttons_def rp2040_get_uid_def rp2040_read_vbat_raw_def rp2040_read_vbat_def
  rp2040_read_vusb_raw_def rp2040_read_vusb_def rp2040_read_temp_def rp2040_get_charging_def
  rp2040_get_usb_def rp2040_get_webusb_mode_def rp2040_exit_webusb_mode_def
  rp2040_get_crash_state_def rp2040_ir_send_def rp2040_get_reset_attempted_def
  rp2040_set_reset_attempted_def rp2040_set_reset_lock_def rp2040_set_ws2812_mode_def
  rp2040_set_ws2812_data_def rp2040_set_ws2812_length_def rp2040_ws2812_trigger_def
  rp2040_set_msc_control_def rp2040_get_msc_state_def rp2040_set_msc_block_count_def
  rp2040_set_msc_block_size_def

lemma one_le_word: "(1 \<le> (v::8 word)) = (v \<noteq> 0)"
  by (metis not_less word_less_1)

lemma call_denied:
  "\<not> gate_allows opn (fw_version device) \<Longrightarrow>
   call R opn device w =
     Inr (if ignored_if_unsupported opn then ESP_OK else ESP_FAIL, device, w)"
  by (cases opn) (auto simp: gate_allows_def accessor_defs keep_device_def no_output_def one_le_word)

lemma call_allowed:
  "gate_allows opn (fw_version device) \<Longrightarrow> arguments_in_range opn \<Longrightarrow>
   \<not> (i2c_semaphore device \<and> lock_held w) \<Longrightarrow>
   \<exists>res device' w'. call R opn device w = Inr (res, device', w') \<and>
      length (log w') = Suc (length (log w))"
  by (cases opn)
     (auto simp: gate_allows_def accessor_defs keep_device_def no_output_def
                 read_reg_result write_reg_result one_le_word Let_def)

text \<open>
  C1, as amended. For every gated accessor and every cached version \<open>v\<close>: when the gate
  of the table does not allow the call (\<open>v\<close> below the family's minimum or \<open>v = 0xFF\<close>
  for an application family, \<open>v \<noteq> 0xFF\<close> for the bootloader family), the accessor
  returns at once, with the structure and the world as they were, so without a bus
  transaction; the result is \<open>ESP_FAIL\<close>, the code the driver has for an unsupported
  operation, except for \<open>rp2040_set_lcd_backlight\<close>, whose result is \<open>ESP_OK\<close>. When
  the gate allows the call, the arguments are in range and the bus lock is free, the
  accessor hands exactly one transaction to the transport. The minimum versions are
  those of \<open>min_version\<close>.
\<close>

theorem capability_gate:
  "(\<not> gate_allows opn (fw_version device) \<longrightarrow>
      call R opn device w =
        Inr (if ignored_if_unsupported opn then ESP_OK else ESP_FAIL, device, w)) \<and>
   (gate_allows opn (fw_version device) \<and> arguments_in_range opn \<and>
    \<not> (i2c_semaphore device \<and> lock_held w) \<longrightarrow>
      (\<exists>res device' w'. call R opn device w = Inr (res, device', w') \<and>
         length (log w') = Suc (length (log w))))"
  using call_denied [of opn device R w] call_allowed [of opn device w R] by blast

theorem capability_gate_witness:
  "call example_regs Read_vbat_raw (example_device 1) (example_world []) =
     Inr (ESP_FAIL, example_device 1, example_world []) \<and>
   (\<exists>res device' w'.
      call example_regs Read_vbat_raw (example_device 2) (example_world []) = Inr (res, device', w') \<and>
      length (log w') = Suc (length (log (example_world [])))) \<and>
   call example_regs Get_bootloader_state (example_device 2) (example_world []) =
     Inr (ESP_FAIL, example_device 2, example_world []) \<and>
   (\<exists>res device' w'.
      call example_regs Get_bootloader_state (example_device 0xFF) (example_world []) = Inr (res, device', w') \<and>
      length (log w') = Suc (length (log (example_world []))))"
proof -
  have free: "\<not> (i2c_semaphore (example_device v) \<and> lock_held (example_world []))" for v
    by (simp add: example_world_def)
  have "\<not> gate_allows Read_vbat_raw (fw_version (example_device 1))"
    and "gate_allows Read_vbat_raw (fw_version (example_device 2))"
    and "\<not> gate_allows Get_bootloader_state (fw_version (example_device 2))"
    and "gate_allows Get_bootloader_state (fw_version (example_device 0xFF))"
    by (simp_all add: gate_allows_def example_device_def word_le_nat_alt)
  with free
    capability_gate [of Read_vbat_raw "example_device 1" example_regs "example_world []"]
    capability_gate [of Read_vbat_raw "example_device 2" example_regs "example_world []"]
    capability_gate [of Get_bootloader_state "example_device 2" example_regs "example_world []"]
    capability_gate [of Get_bootloader_state "example_device 0xFF" example_regs "example_world []"]
  show ?thesis
    by (simp del: call.simps)
qed

text \<open>
  The claim as it was stated fails for the backlight, a member of the \<open>0x01\<close> family:
  with the cached version \<open>0\<close> the call does not fail.
\<close>

theorem set_lcd_backlight_counterexample:
  "fw_version (example_device 0) < 0x01 \<and>
   rp2040_set_lcd_backlight example_regs (example_device 0) 128 (example_world []) =
     Inr (ESP_OK, example_world []) \<and>
   rp2040_set_lcd_backlight example_regs (example_device 0) 128 (example_world []) \<noteq>
     Inr (ESP_FAIL, example_world [])"
  by (simp add: rp2040_set_lcd_backlight_def example_device_def)

text \<open>
  C6. When its gate is not satisfied (version below \<open>0x01\<close>, or \<open>0xFF\<close>),
  \<open>rp2040_set_lcd_backlight\<close> returns \<open>ESP_OK\<close> and leaves the world as it was: no
  bus access. Every other gated accessor returns \<open>ESP_FAIL\<close> when its gate denies the
  call.
\<close>

theorem set_lcd_backlight_ignored:
  "(fw_version device < 0x01 \<or> fw_version device = 0xFF \<longrightarrow>
      rp2040_set_lcd_backlight R device brightness w = Inr (ESP_OK, w)) \<and>
   (\<not> gate_allows opn (fw_version device) \<and> \<not> ignored_if_unsupported opn \<longrightarrow>
      call R opn device w = Inr (ESP_FAIL, device, w))"
  using call_denied [of opn device R w] by (auto simp: rp2040_set_lcd_backlight_def)

theorem set_lcd_backlight_ignored_witness:
  "rp2040_set_lcd_backlight example_regs (example_device 0) 128 (example_world []) =
     Inr (ESP_OK, example_world []) \<and>
   rp2040_set_lcd_backlight example_regs (example_device 0xFF) 128 (example_world []) =
     Inr (ESP_OK, example_world []) \<and>
   call example_regs Get_lcd_backlight (example_device 0) (example_world []) =
     Inr (ESP_FAIL, example_device 0, example_world [])"
proof -
  have "fw_version (example_device 0) < 0x01" and "fw_version (example_device 0xFF) = 0xFF"
    and "\<not> gate_allows Get_lcd_backlight (fw_version (example_device 0))"
    by (simp_all add: gate_allows_def example_device_def word_le_nat_alt)
  with set_lcd_backlight_ignored [of "example_device 0" example_regs 128 "example_world []" Get_lcd_backlight]
       set_lcd_backlight_ignored [of "example_device 0xFF" example_regs 128 "example_world []" Get_lcd_backlight]
  show ?thesis
    by (simp del: call.simps)
qed

subsection \<open>Bounded parameters\<close>

text \<open>
  C7, as amended. With a version that passes the gate (at least \<open>0x09\<close>, and not the
  bootloader sentinel \<open>0xFF\<close>), \<open>rp2040_set_ws2812_data\<close> with \<open>position \<ge> 10\<close>
  returns \<open>ESP_FAIL\<close>, the driver's code for an invalid argument as for every other
  refusal, and leaves the world as it was; with \<open>position < 10\<close>, \<open>9\<close> for one, and
  the bus lock free, it hands the transport the write of the four bytes at
  \<open>RP2040_REG_WS2812_LED0_DATA0 + 4 * position\<close> and returns the transport's result.
  With a version of at least \<open>0x0D\<close>, and not \<open>0xFF\<close>,
  \<open>rp2040_set_msc_block_count\<close> and \<open>rp2040_set_msc_block_size\<close> with \<open>lun > 1\<close>
  return \<open>ESP_FAIL\<close> and leave the world as it was; with \<open>lun \<le> 1\<close> they hand the
  transport the write to the register of that unit.
\<close>

theorem bounded_parameters:
  "(0x09 \<le> fw_version device \<and> fw_version device \<noteq> 0xFF \<longrightarrow>
      (position \<ge> 10 \<longrightarrow>
         rp2040_set_ws2812_data R device position val w = Inr (ESP_FAIL, w)) \<and>
      (position < 10 \<and> \<not> (i2c_semaphore device \<and> lock_held w) \<longrightarrow>
         (\<exists>w'. rp2040_set_ws2812_data R device position val w = Inr (next_outcome w, w') \<and>
            log w' = log w @ [Transmit ((R RP2040_REG_WS2812_LED0_DATA0 + position * 4) # le_bytes 4 val)]))) \<and>
   (0x0D \<le> fw_version device \<and> fw_version device \<noteq> 0xFF \<longrightarrow>
      (lun > 1 \<longrightarrow>
         rp2040_set_msc_block_count R device lun count w = Inr (ESP_FAIL, w) \<and>
         rp2040_set_msc_block_size R device lun sz w = Inr (ESP_FAIL, w)) \<and>
      (lun \<le> 1 \<and> \<not> (i2c_semaphore device \<and> lock_held w) \<longrightarrow>
         (\<exists>w'. rp2040_set_msc_block_count R device lun count w = Inr (next_outcome w, w') \<and>
            log w' = log w @ [Transmit ((if lun = 1 then R RP2040_REG_MSC1_BLOCK_COUNT_LO_A
                                         else R RP2040_REG_MSC0_BLOCK_COUNT_LO_A) # le_bytes 4 count)]) \<and>
         (\<exists>w'. rp2040_set_msc_block_size R device lun sz w = Inr (next_outcome w, w') \<and>
            log w' = log w @ [Transmit ((if lun = 1 then R RP2040_REG_MSC1_BLOCK_SIZE_LO
                                         else R RP2040_REG_MSC0_BLOCK_SIZE_LO) # le_bytes 2 sz)])))"
proof -
  have nine: "\<not> fw_version device < 0x09" if "0x09 \<le> fw_version device"
    using that by (simp add: not_less)
  have thirteen: "\<not> fw_version device < 0x0D" if "0x0D \<le> fw_version device"
    using that by (simp add: not_less)
  have big: "\<not> lun \<le> 1" if "lun > 1"
    using that by (simp add: not_le)
  have small: "\<not> position \<ge> 10" if "position < 10"
    using that by (simp add: not_le)
  show ?thesis
    using nine thirteen big small
    by (auto simp: rp2040_set_ws2812_data_def rp2040_set_msc_block_count_def
          rp2040_set_msc_block_size_def write_reg_result)
qed

lemma example_bytes:
  "le_bytes 4 (0x00FF0000 :: 32 word) = [0, 0, 0xFF, 0]"
  "le_bytes 4 (0x00001000 :: 32 word) = [0, 0x10, 0, 0]"
  "le_bytes 2 (0x0200 :: 16 word) = [0, 0x02]"
  by code_simp+

theorem bounded_parameters_witness:
  "rp2040_set_ws2812_data example_regs (example_device 0x09) 10 0x00FF0000 (example_world []) =
     Inr (ESP_FAIL, example_world []) \<and>
   (\<exists>w'. rp2040_set_ws2812_data example_regs (example_device 0x09) 9 0x00FF0000 (example_world []) =
      Inr (ESP_OK, w') \<and> log w' = [Transmit [75, 0, 0, 0xFF, 0]]) \<and>
   rp2040_set_msc_block_count example_regs (example_device 0x0D) 2 0x00001000 (example_world []) =
     Inr (ESP_FAIL, example_world []) \<and>
   rp2040_set_msc_block_size example_regs (example_device 0x0D) 2 0x0200 (example_world []) =
     Inr (ESP_FAIL, example_world []) \<and>
   (\<exists>w'. rp2040_set_msc_block_count example_regs (example_device 0x0D) 1 0x00001000 (example_world []) =
      Inr (ESP_OK, w') \<and> log w' = [Transmit [87, 0, 0x10, 0, 0]]) \<and>
   (\<exists>w'. rp2040_set_msc_block_size example_regs (example_device 0x0D) 1 0x0200 (example_world []) =
      Inr (ESP_OK, w') \<and> log w' = [Transmit [91, 0, 0x02]])"
proof -
  have v9: "0x09 \<le> fw_version (example_device 0x09) \<and> fw_version (example_device 0x09) \<noteq> 0xFF"
    and v13: "0x0D \<le> fw_version (example_device 0x0D) \<and> fw_version (example_device 0x0D) \<noteq> 0xFF"
    by (simp_all add: example_device_def)
  have free: "\<not> (i2c_semaphore (example_device v) \<and> lock_held (example_world []))" for v
    by (simp add: example_world_def)
  have ok: "next_outcome (example_world []) = ESP_OK" and l: "log (example_world []) = []"
    by (simp_all add: example_world_def next_outcome_def)
  have a: "(10 :: 8 word) \<ge> 10" "(9 :: 8 word) < 10" "(2 :: 8 word) > 1" "(1 :: 8 word) \<le> 1"
    by (simp_all add: word_le_nat_alt word_less_nat_alt)
  from bounded_parameters [of "example_device 0x09" 10 example_regs "0x00FF0000" "example_world []"] v9 a
  have c1: "rp2040_set_ws2812_data example_regs (example_device 0x09) 10 0x00FF0000 (example_world []) =
     Inr (ESP_FAIL, example_world [])"
    by blast
  from bounded_parameters [of "example_device 0x09" 9 example_regs "0x00FF0000" "example_world []"] v9 a free
  have c2: "\<exists>w'. rp2040_set_ws2812_data example_regs (example_device 0x09) 9 0x00FF0000 (example_world []) =
      Inr (ESP_OK, w') \<and> log w' = [Transmit [75, 0, 0, 0xFF, 0]]"
    unfolding ok l example_bytes example_regs.simps by simp
  from bounded_parameters [where device = "example_device 0x0D" and w = "example_world []" and lun = 2
      and R = example_regs and count = "0x00001000" and sz = "0x0200"] v13 a
  have c3: "rp2040_set_msc_block_count example_regs (example_device 0x0D) 2 0x00001000 (example_world []) =
     Inr (ESP_FAIL, example_world [])"
    and c4: "rp2040_set_msc_block_size example_regs (example_device 0x0D) 2 0x0200 (example_world []) =
     Inr (ESP_FAIL, example_world [])"
    by blast+
  from bounded_parameters [where device = "example_device 0x0D" and w = "example_world []" and lun = 1
      and R = example_regs and count = "0x00001000" and sz = "0x0200"] v13 a free
  have c5: "(\<exists>w'. rp2040_set_msc_block_count example_regs (example_device 0x0D) 1 0x00001000 (example_world []) =
      Inr (ESP_OK, w') \<and> log w' = [Transmit [87, 0, 0x10, 0, 0]]) \<and>
   (\<exists>w'. rp2040_set_msc_block_size example_regs (example_device 0x0D) 1 0x0200 (example_world []) =
      Inr (ESP_OK, w') \<and> log w' = [Transmit [91, 0, 0x02]])"
    unfolding ok l example_bytes example_regs.simps by simp
  from c1 c2 c3 c4 c5 show ?thesis
    by blast
qed

text \<open>
  The claim as it was stated asks only for a version of at least \<open>0x09\<close> and \<open>0x0D\<close>.
  The cached version \<open>0xFF\<close> is that large, and with it position 9 and unit 1 are
  refused before the bus is touched.
\<close>

theorem bounded_parameters_counterexample:
  "0x09 \<le> fw_version (example_device 0xFF) \<and> 0x0D \<le> fw_version (example_device 0xFF) \<and>
   rp2040_set_ws2812_data example_regs (example_device 0xFF) 9 0x00FF0000 (example_world []) =
     Inr (ESP_FAIL, example_world []) \<and>
   rp2040_set_msc_block_count example_regs (example_device 0xFF) 1 0x00001000 (example_world []) =
     Inr (ESP_FAIL, example_world []) \<and>
   rp2040_set_msc_block_size example_regs (example_device 0xFF) 1 0x0200 (example_world []) =
     Inr (ESP_FAIL, example_world [])"
  by (simp add: rp2040_set_ws2812_data_def rp2040_set_msc_block_count_def
        rp2040_set_msc_block_size_def example_device_def word_le_nat_alt)

subsection \<open>The interrupt worker\<close>

lemma shifted_bit_test:
  "(drop_bit k (ucast (x::'a::len word) :: 32 word) AND 0x01 \<noteq> 0) = (k < 32 \<and> bit x k)"
proof -
  have "(drop_bit k (ucast x :: 32 word) AND 1 \<noteq> 0) = bit (ucast x :: 32 word) k"
    by (simp add: and_one_eq bit_iff_odd_drop_bit mod_2_eq_odd)
  also have "\<dots> = (k < 32 \<and> bit x k)"
    by (auto simp: bit_ucast_iff dest: bit_imp_le_length)
  finally show ?thesis by simp
qed

lemma intr_task_for_from:
  "k \<le> 16 \<Longrightarrow>
   intr_task_for device interrupt vals (of_nat k) w =
     w\<lparr>callbacks := callbacks w @ map (\<lambda>i. (of_nat i, bit vals i)) (filter (bit interrupt) [k..<16])\<rparr>"
proof (induction "16 - k" arbitrary: k w)
  case 0
  then have "k = 16" by simp
  then show ?case
    by (simp add: intr_task_for.simps [of _ _ _ 16])
next
  case (Suc n)
  then have k: "k < 16" by simp
  then have lt: "(of_nat k :: 8 word) < 16"
    by (simp add: word_less_nat_alt unat_of_nat)
  have un: "unat (of_nat k :: 8 word) = k"
    using k by (simp add: unat_of_nat)
  have step: "(of_nat k :: 8 word) + 1 = of_nat (Suc k)"
    by simp
  have ih: "intr_task_for device interrupt vals (of_nat (Suc k)) w' =
     w'\<lparr>callbacks := callbacks w' @ map (\<lambda>i. (of_nat i, bit vals i)) (filter (bit interrupt) [Suc k..<16])\<rparr>" for w'
    using Suc.hyps(1) [of "Suc k" w'] Suc.hyps(2) k by simp
  have split: "[k..<16] = k # [Suc k..<16]"
    using k by (simp add: upt_conv_Cons)
  show ?case
    apply (subst intr_task_for.simps)
    apply (simp only: lt if_True step un ih shifted_bit_test)
    using k apply (simp add: split send_input_change_def)
    done
qed

text \<open>
  C3. A pass of the worker that finds a signal consumes it and hands the transport one
  read of four bytes at \<open>RP2040_REG_INPUT1\<close>, and no second one. (The bus lock is
  free: from a lock that is held the read would not return, with either result.) When the read succeeds, the handler is invoked for the indices
  \<open>0..15\<close> whose bit is set in the high half of the value read, once each, in
  ascending order, with the index and that index's bit of the low half. When the read
  fails, the handler is not invoked. Either way the worker is back at the head of its
  loop, where it finds no signal and waits. The example of the specification, changed
  mask \<open>0x0003\<close> with values \<open>0x0001\<close>, gives the two calls \<open>(0, true)\<close> and
  \<open>(1, false)\<close>.
\<close>

theorem intr_task_body_dispatch:
  fixes R :: regmap and device :: RP2040 and w :: world
  assumes "intr_trigger w" and "\<not> (i2c_semaphore device \<and> lock_held w)"
  defines "state \<equiv> (le_word (load (R RP2040_REG_INPUT1) 4 (regs w)) :: 32 word)"
  shows "\<exists>w'. intr_task_body R device w = Inr w' \<and>
           rp2040_intr_task R device (Suc n) w = rp2040_intr_task R device n w' \<and>
           \<not> intr_trigger w' \<and> intr_task_body R device w' = Inl Blocked \<and>
           log w' = log w @ [TransmitReceive [R RP2040_REG_INPUT1] 4] \<and>
           callbacks w' = callbacks w @
             (if next_outcome w = ESP_OK
              then map (\<lambda>i. (of_nat i, bit (ucast state :: 16 word) i))
                     (filter (bit (ucast (drop_bit 16 state) :: 16 word)) [0..<16])
              else [])"
proof -
  let ?w1 = "w\<lparr>intr_trigger := False\<rparr>"
  have free: "\<not> (i2c_semaphore device \<and> lock_held ?w1)"
    using assms(2) by simp
  have out: "next_outcome ?w1 = next_outcome w"
    by (simp add: next_outcome_def)
  have m: "(0xFFFF :: 32 word) = mask 16"
    by (simp add: mask_eq_decr_exp)
  have low: "(ucast (s AND 0xFFFF) :: 16 word) = ucast s" for s :: "32 word"
    unfolding m by (rule bit_word_eqI) (auto simp: bit_simps)
  have parked: "intr_task_body R device w' = Inl Blocked" if "\<not> intr_trigger w'" for w'
    using that by (simp add: intr_task_body_def)
  have "\<exists>w'. intr_task_body R device w = Inr w' \<and> \<not> intr_trigger w' \<and>
           log w' = log w @ [TransmitReceive [R RP2040_REG_INPUT1] 4] \<and>
           callbacks w' = callbacks w @
             (if next_outcome w = ESP_OK
              then map (\<lambda>i. (of_nat i, bit (ucast state :: 16 word) i))
                     (filter (bit (ucast (drop_bit 16 state) :: 16 word)) [0..<16])
              else [])"
    using assms(1) intr_task_for_from [of 0 device _ _ ]
    by (auto simp: intr_task_body_def read_reg_result [OF free] out low state_def Let_def)
  then obtain w' where body: "intr_task_body R device w = Inr w'" and consumed: "\<not> intr_trigger w'"
    and bus: "log w' = log w @ [TransmitReceive [R RP2040_REG_INPUT1] 4]"
    and calls: "callbacks w' = callbacks w @
             (if next_outcome w = ESP_OK
              then map (\<lambda>i. (of_nat i, bit (ucast state :: 16 word) i))
                     (filter (bit (ucast (drop_bit 16 state) :: 16 word)) [0..<16])
              else [])"
    by blast
  from body have "rp2040_intr_task R device (Suc n) w = rp2040_intr_task R device n w'"
    by simp
  with body consumed parked [OF consumed] bus calls show ?thesis
    by blast
qed

lemma example_changes:
  "map (\<lambda>i. (of_nat i :: 8 word,
            bit (ucast (le_word (load 6 4 (store 6 [0x01, 0x00, 0x03, 0x00] (\<lambda>r. 0))) :: 32 word) :: 16 word) i))
     (filter (bit (ucast (drop_bit 16 (le_word (load 6 4 (store 6 [0x01, 0x00, 0x03, 0x00] (\<lambda>r. 0))) :: 32 word)) :: 16 word))
        [0..<16]) =
   [(0, True), (1, False)]"
  by code_simp

theorem intr_task_body_dispatch_witness:
  "(\<exists>w'. intr_task_body example_regs (example_device 1) example_input_world = Inr w' \<and>
      \<not> intr_trigger w' \<and>
      log w' = [TransmitReceive [6] 4] \<and>
      callbacks w' = [(0, True), (1, False)]) \<and>
   (\<exists>w'. intr_task_body example_regs (example_device 1)
           (example_input_world\<lparr>outcomes := [ESP_ERR_TIMEOUT]\<rparr>) = Inr w' \<and>
      \<not> intr_trigger w' \<and>
      log w' = [TransmitReceive [6] 4] \<and>
      callbacks w' = [])"
proof -
  let ?failing = "example_input_world\<lparr>outcomes := [ESP_ERR_TIMEOUT]\<rparr>"
  have pre: "intr_trigger example_input_world"
    "\<not> (i2c_semaphore (example_device 1) \<and> lock_held example_input_world)"
    and pre': "intr_trigger ?failing"
    "\<not> (i2c_semaphore (example_device 1) \<and> lock_held ?failing)"
    by (simp_all add: example_input_world_def example_world_def)
  have ok: "next_outcome example_input_world = ESP_OK"
    and failed: "(next_outcome ?failing = ESP_OK) = False"
    by (simp_all add: example_input_world_def example_world_def next_outcome_def)
  have r: "regs example_input_world = store 6 [0x01, 0x00, 0x03, 0x00] (\<lambda>r. 0)"
    and l: "log example_input_world = []" "log ?failing = []"
    and c: "callbacks example_input_world = []" "callbacks ?failing = []"
    by (simp_all add: example_input_world_def example_world_def)
  from intr_task_body_dispatch [OF pre, of example_regs 0]
  have first: "\<exists>w'. intr_task_body example_regs (example_device 1) example_input_world = Inr w' \<and>
      \<not> intr_trigger w' \<and>
      log w' = [TransmitReceive [6] 4] \<and>
      callbacks w' = [(0, True), (1, False)]"
    unfolding ok r l c example_regs.simps example_changes by auto
  from intr_task_body_dispatch [OF pre', of example_regs 0]
  have second: "\<exists>w'. intr_task_body example_regs (example_device 1) ?failing = Inr w' \<and>
      \<not> intr_trigger w' \<and>
      log w' = [TransmitReceive [6] 4] \<and>
      callbacks w' = []"
    unfolding failed l c example_regs.simps by auto
  from first second show ?thesis
    by blast
qed

subsection \<open>GPIO direction and value\<close>

lemma byte_or_shifted:
  "(ucast ((ucast (c::8 word) :: 32 word) OR push_bit g 1) :: 8 word) = set_bit g c"
  by (rule bit_word_eqI) (auto simp: bit_simps)

lemma byte_and_not_shifted:
  "g < 32 \<Longrightarrow> (ucast ((ucast (c::8 word) :: 32 word) AND NOT (push_bit g 1)) :: 8 word) = unset_bit g c"
  by (rule bit_word_eqI) (auto simp: bit_simps)

lemma byte_or_power:
  "(ucast ((ucast (c::8 word) :: 32 word) OR 2 ^ g) :: 8 word) = set_bit g c"
  using byte_or_shifted [of c g] by simp

lemma byte_and_not_power:
  "g < 32 \<Longrightarrow> (ucast ((ucast (c::8 word) :: 32 word) AND NOT (2 ^ g)) :: 8 word) = unset_bit g c"
  using byte_and_not_shifted [of g c] by simp

lemma set_bit_beyond_byte: "8 \<le> g \<Longrightarrow> set_bit g (c::8 word) = c"
  by (rule bit_word_eqI) (auto simp: bit_simps)

lemma unset_bit_beyond_byte: "8 \<le> g \<Longrightarrow> unset_bit g (c::8 word) = c"
  by (rule bit_word_eqI) (auto simp: bit_simps)

lemma le_word_single: "(le_word [b] :: 8 word) = b"
  by simp

lemma load_single: "load r (Suc 0) m = [m r]"
  by (simp add: load_def)

lemma set_gpio_dir_result:
  "\<not> (fw_version device < 0x01 \<or> fw_version device = 0xFF) \<Longrightarrow> unat gpio < 32 \<Longrightarrow>
   \<not> (i2c_semaphore device \<and> lock_held w) \<Longrightarrow>
   rp2040_set_gpio_dir R device gpio direction w =
     (let c = (if direction then set_bit (unat gpio) (gpio_direction device)
               else unset_bit (unat gpio) (gpio_direction device))
      in Inr (next_outcome w, device\<lparr>gpio_direction := c\<rparr>,
              w\<lparr>log := log w @ [Transmit [R RP2040_REG_GPIO_DIR, c]], outcomes := tl (outcomes w),
                lock_held := (if i2c_semaphore device then next_outcome w \<noteq> ESP_OK else lock_held w),
                regs := (if next_outcome w = ESP_OK then (regs w)(R RP2040_REG_GPIO_DIR := c) else regs w)\<rparr>))"
  by (simp add: rp2040_set_gpio_dir_def write_reg_result byte_or_power byte_and_not_power Let_def)

lemma set_gpio_value_result:
  "\<not> (fw_version device < 0x01 \<or> fw_version device = 0xFF) \<Longrightarrow> unat gpio < 32 \<Longrightarrow>
   \<not> (i2c_semaphore device \<and> lock_held w) \<Longrightarrow>
   rp2040_set_gpio_value R device gpio val w =
     (let c = (if val then set_bit (unat gpio) (gpio_value device)
               else unset_bit (unat gpio) (gpio_value device))
      in Inr (next_outcome w, device\<lparr>gpio_value := c\<rparr>,
              w\<lparr>log := log w @ [Transmit [R RP2040_REG_GPIO_OUT, c]], outcomes := tl (outcomes w),
                lock_held := (if i2c_semaphore device then next_outcome w \<noteq> ESP_OK else lock_held w),
                regs := (if next_outcome w = ESP_OK then (regs w)(R RP2040_REG_GPIO_OUT := c) else regs w)\<rparr>))"
  by (simp add: rp2040_set_gpio_value_def write_reg_result byte_or_power byte_and_not_power Let_def)

lemma get_gpio_dir_result:
  "\<not> (fw_version device < 0x01 \<or> fw_version device = 0xFF) \<Longrightarrow> unat gpio < 32 \<Longrightarrow>
   \<not> (i2c_semaphore device \<and> lock_held w) \<Longrightarrow>
   rp2040_get_gpio_dir R device gpio w =
     Inr (next_outcome w,
          (if next_outcome w = ESP_OK then Some (bit (regs w (R RP2040_REG_GPIO_DIR)) (unat gpio)) else None),
          (if next_outcome w = ESP_OK then device\<lparr>gpio_direction := regs w (R RP2040_REG_GPIO_DIR)\<rparr>
           else device),
          w\<lparr>log := log w @ [TransmitReceive [R RP2040_REG_GPIO_DIR] 1], outcomes := tl (outcomes w),
            lock_held := (if i2c_semaphore device then next_outcome w \<noteq> ESP_OK else lock_held w)\<rparr>)"
  by (simp add: rp2040_get_gpio_dir_def read_reg_result shifted_bit_test load_single le_word_single Let_def)

lemma get_gpio_value_result:
  "\<not> (fw_version device < 0x01 \<or> fw_version device = 0xFF) \<Longrightarrow> unat gpio < 32 \<Longrightarrow>
   \<not> (i2c_semaphore device \<and> lock_held w) \<Longrightarrow>
   rp2040_get_gpio_value R device gpio w =
     Inr (next_outcome w,
          (if next_outcome w = ESP_OK then Some (bit (regs w (R RP2040_REG_GPIO_IN)) (unat gpio)) else None),
          w\<lparr>log := log w @ [TransmitReceive [R RP2040_REG_GPIO_IN] 1], outcomes := tl (outcomes w),
            lock_held := (if i2c_semaphore device then next_outcome w \<noteq> ESP_OK else lock_held w)\<rparr>)"
  by (simp add: rp2040_get_gpio_value_def read_reg_result shifted_bit_test load_single le_word_single Let_def)

lemma ok_means_gate_and_lock_dir:
  assumes "rp2040_set_gpio_dir R device gpio b w = Inr (ESP_OK, device', w')"
  shows "\<not> (fw_version device < 0x01 \<or> fw_version device = 0xFF)"
    and "unat gpio < 32" and "\<not> (i2c_semaphore device \<and> lock_held w)"
  using assms
  by (auto simp: rp2040_set_gpio_dir_def write_reg_blocked Let_def split: if_splits)

lemma ok_means_gate_and_lock_value:
  assumes "rp2040_set_gpio_value R device gpio b w = Inr (ESP_OK, device', w')"
  shows "\<not> (fw_version device < 0x01 \<or> fw_version device = 0xFF)"
    and "unat gpio < 32" and "\<not> (i2c_semaphore device \<and> lock_held w)"
  using assms
  by (auto simp: rp2040_set_gpio_value_def write_reg_blocked Let_def split: if_splits)

lemma gate_01_passed:
  "0x01 \<le> (v::8 word) \<Longrightarrow> v \<noteq> 0xFF \<Longrightarrow> \<not> (v < 0x01 \<or> v = 0xFF)"
  by (simp add: one_le_word)

text \<open>
  C4, as amended. For a bit index below 8, a successful \<open>rp2040_set_gpio_dir\<close> followed
  by a successful \<open>rp2040_get_gpio_dir\<close> of the same index returns the direction that
  was set. A successful \<open>rp2040_set_gpio_value\<close> followed by a successful
  \<open>rp2040_get_gpio_value\<close> returns the bit of the companion's input register
  \<open>RP2040_REG_GPIO_IN\<close>; the write went to \<open>RP2040_REG_GPIO_OUT\<close>, and where the two
  are different registers it has not changed the input register.
\<close>

theorem gpio_set_then_get:
  "(unat gpio < 8 \<and>
    rp2040_set_gpio_dir R device gpio b w = Inr (ESP_OK, device', w') \<and>
    rp2040_get_gpio_dir R device' gpio w' = Inr (ESP_OK, d, device'', w'') \<longrightarrow>
      d = Some b) \<and>
   (rp2040_set_gpio_value R device gpio b w = Inr (ESP_OK, device', w') \<and>
    rp2040_get_gpio_value R device' gpio w' = Inr (ESP_OK, v, w'') \<longrightarrow>
      v = Some (bit (regs w' (R RP2040_REG_GPIO_IN)) (unat gpio)) \<and>
      (R RP2040_REG_GPIO_IN \<noteq> R RP2040_REG_GPIO_OUT \<longrightarrow>
         regs w' (R RP2040_REG_GPIO_IN) = regs w (R RP2040_REG_GPIO_IN)))"
proof (intro conjI impI; elim conjE)
  assume small: "unat gpio < 8"
    and set: "rp2040_set_gpio_dir R device gpio b w = Inr (ESP_OK, device', w')"
    and get: "rp2040_get_gpio_dir R device' gpio w' = Inr (ESP_OK, d, device'', w'')"
  note pre = ok_means_gate_and_lock_dir [OF set]
  from set have fw: "fw_version device' = fw_version device"
    and free': "\<not> (i2c_semaphore device' \<and> lock_held w')"
    and cell: "regs w' (R RP2040_REG_GPIO_DIR) =
                (if b then set_bit (unat gpio) (gpio_direction device)
                 else unset_bit (unat gpio) (gpio_direction device))"
    by (auto simp: set_gpio_dir_result [OF pre] Let_def)
  have gate': "\<not> (fw_version device' < 0x01 \<or> fw_version device' = 0xFF)"
    using pre(1) fw by simp
  from get have "d = Some (bit (regs w' (R RP2040_REG_GPIO_DIR)) (unat gpio))"
    by (simp add: get_gpio_dir_result [OF gate' pre(2) free'] split: if_splits)
  with small show "d = Some b"
    by (simp add: cell bit_simps)
next
  assume set: "rp2040_set_gpio_value R device gpio b w = Inr (ESP_OK, device', w')"
    and get: "rp2040_get_gpio_value R device' gpio w' = Inr (ESP_OK, v, w'')"
  note pre = ok_means_gate_and_lock_value [OF set]
  from set have fw: "fw_version device' = fw_version device"
    and free': "\<not> (i2c_semaphore device' \<and> lock_held w')"
    by (auto simp: set_gpio_value_result [OF pre] Let_def)
  have gate': "\<not> (fw_version device' < 0x01 \<or> fw_version device' = 0xFF)"
    using pre(1) fw by simp
  from get show "v = Some (bit (regs w' (R RP2040_REG_GPIO_IN)) (unat gpio))"
    by (simp add: get_gpio_value_result [OF gate' pre(2) free'] split: if_splits)
next
  assume set: "rp2040_set_gpio_value R device gpio b w = Inr (ESP_OK, device', w')"
    and differ: "R RP2040_REG_GPIO_IN \<noteq> R RP2040_REG_GPIO_OUT"
  note pre = ok_means_gate_and_lock_value [OF set]
  from set differ show "regs w' (R RP2040_REG_GPIO_IN) = regs w (R RP2040_REG_GPIO_IN)"
    by (auto simp: set_gpio_value_result [OF pre] Let_def)
qed

theorem gpio_set_then_get_witness:
  "(\<exists>device' w' device'' w''.
      rp2040_set_gpio_dir example_regs (example_device 1) 3 True (example_world []) =
        Inr (ESP_OK, device', w') \<and>
      rp2040_get_gpio_dir example_regs device' 3 w' = Inr (ESP_OK, Some True, device'', w'')) \<and>
   (\<exists>device' w' w''.
      rp2040_set_gpio_value example_regs (example_device 1) 3 True (example_world []) =
        Inr (ESP_OK, device', w') \<and>
      rp2040_get_gpio_value example_regs device' 3 w' = Inr (ESP_OK, Some False, w''))"
proof -
  let ?dev = "example_device 1" and ?w = "example_world []"
  have gate: "\<not> (fw_version ?dev < 0x01 \<or> fw_version ?dev = 0xFF)"
    and free: "\<not> (i2c_semaphore ?dev \<and> lock_held ?w)"
    and ok: "next_outcome ?w = ESP_OK"
    and three: "unat (3 :: 8 word) < 32" "unat (3 :: 8 word) < 8"
    by (simp_all add: example_device_def example_world_def next_outcome_def)
  obtain device1 w1 where
    set1: "rp2040_set_gpio_dir example_regs ?dev 3 True ?w = Inr (ESP_OK, device1, w1)"
    by (simp add: set_gpio_dir_result [OF gate three(1) free] ok Let_def)
  note pre1 = ok_means_gate_and_lock_dir [OF set1]
  from set1 [unfolded set_gpio_dir_result [OF gate three(1) free] ok Let_def]
  have fw1: "fw_version device1 = fw_version ?dev"
    and free1: "\<not> (i2c_semaphore device1 \<and> lock_held w1)"
    and ok1: "next_outcome w1 = ESP_OK"
    by (auto simp: next_outcome_def example_world_def)
  have gate1: "\<not> (fw_version device1 < 0x01 \<or> fw_version device1 = 0xFF)"
    using gate fw1 by simp
  obtain d device2 w2 where
    get1: "rp2040_get_gpio_dir example_regs device1 3 w1 = Inr (ESP_OK, d, device2, w2)"
    by (simp add: get_gpio_dir_result [OF gate1 three(1) free1] ok1)
  from gpio_set_then_get [of 3 example_regs ?dev True ?w device1 w1 d device2 w2] three(2) set1 get1
  have "d = Some True"
    by blast
  with set1 get1 have first: "\<exists>device' w' device'' w''.
      rp2040_set_gpio_dir example_regs ?dev 3 True ?w = Inr (ESP_OK, device', w') \<and>
      rp2040_get_gpio_dir example_regs device' 3 w' = Inr (ESP_OK, Some True, device'', w'')"
    by blast
  obtain device3 w3 where
    set2: "rp2040_set_gpio_value example_regs ?dev 3 True ?w = Inr (ESP_OK, device3, w3)"
    by (simp add: set_gpio_value_result [OF gate three(1) free] ok Let_def)
  from set2 [unfolded set_gpio_value_result [OF gate three(1) free] ok Let_def]
  have fw3: "fw_version device3 = fw_version ?dev"
    and free3: "\<not> (i2c_semaphore device3 \<and> lock_held w3)"
    and ok3: "next_outcome w3 = ESP_OK"
    and in3: "regs w3 2 = 0"
    by (auto simp: next_outcome_def example_world_def)
  have gate3: "\<not> (fw_version device3 < 0x01 \<or> fw_version device3 = 0xFF)"
    using gate fw3 by simp
  obtain v w4 where
    get2: "rp2040_get_gpio_value example_regs device3 3 w3 = Inr (ESP_OK, v, w4)"
    by (simp add: get_gpio_value_result [OF gate3 three(1) free3] ok3)
  from gpio_set_then_get [of 3 example_regs ?dev True ?w device3 w3 _ _ w4 v] set2 get2
  have "v = Some (bit (regs w3 (example_regs RP2040_REG_GPIO_IN)) (unat (3 :: 8 word)))"
    by blast
  then have "v = Some False"
    by (simp add: in3)
  with set2 get2 have second: "\<exists>device' w' w''.
      rp2040_set_gpio_value example_regs ?dev 3 True ?w = Inr (ESP_OK, device', w') \<and>
      rp2040_get_gpio_value example_regs device' 3 w' = Inr (ESP_OK, Some False, w'')"
    by blast
  from first second show ?thesis
    by blast
qed

text \<open>
  The claim as it was stated fails for the value: with an input register that reads
  zero, setting bit 0 of the output succeeds and the read that follows returns
  \<open>false\<close>.
\<close>

theorem gpio_value_counterexample:
  "(case rp2040_set_gpio_value example_regs (example_device 1) 0 True (example_world []) of
      Inl f \<Rightarrow> False
    | Inr (res, device', w') \<Rightarrow>
        res = ESP_OK \<and>
        (case rp2040_get_gpio_value example_regs device' 0 w' of
           Inl f \<Rightarrow> False
         | Inr (res', v, w'') \<Rightarrow> res' = ESP_OK \<and> v = Some False))"
  by (simp add: rp2040_set_gpio_value_def rp2040_get_gpio_value_def write_reg_result
        read_reg_result load_single le_word_single example_device_def example_world_def
        next_outcome_def)

text \<open>
  C5, as amended. When the gate is passed and the transport fails the write, the
  accessor returns the transport's code and the cached byte is the updated one, with
  the bit set or cleared: the source has no rollback.
\<close>

theorem gpio_cache_kept_on_failure:
  assumes "0x01 \<le> fw_version device" and "fw_version device \<noteq> 0xFF"
      and "unat gpio < 32"
      and "\<not> (i2c_semaphore device \<and> lock_held w)"
      and "next_outcome w \<noteq> ESP_OK"
  shows "(\<exists>w'. rp2040_set_gpio_dir R device gpio b w =
            Inr (next_outcome w,
                 device\<lparr>gpio_direction :=
                   (if b then set_bit (unat gpio) (gpio_direction device)
                    else unset_bit (unat gpio) (gpio_direction device))\<rparr>, w')) \<and>
         (\<exists>w'. rp2040_set_gpio_value R device gpio b w =
            Inr (next_outcome w,
                 device\<lparr>gpio_value :=
                   (if b then set_bit (unat gpio) (gpio_value device)
                    else unset_bit (unat gpio) (gpio_value device))\<rparr>, w'))"
proof -
  have gate: "\<not> (fw_version device < 0x01 \<or> fw_version device = 0xFF)"
    using assms(1,2) by (rule gate_01_passed)
  show ?thesis
    by (simp add: set_gpio_dir_result [OF gate assms(3,4)]
          set_gpio_value_result [OF gate assms(3,4)] Let_def)
qed

theorem gpio_cache_kept_on_failure_witness:
  "(\<exists>w'. rp2040_set_gpio_dir example_regs (example_device 1) 0 True (example_world [ESP_ERR_TIMEOUT]) =
      Inr (ESP_ERR_TIMEOUT, (example_device 1)\<lparr>gpio_direction := 1\<rparr>, w')) \<and>
   (\<exists>w'. rp2040_set_gpio_value example_regs (example_device 1) 0 True (example_world [ESP_ERR_TIMEOUT]) =
      Inr (ESP_ERR_TIMEOUT, (example_device 1)\<lparr>gpio_value := 1\<rparr>, w'))"
proof -
  have "0x01 \<le> fw_version (example_device 1)" and "fw_version (example_device 1) \<noteq> 0xFF"
    and "unat (0 :: 8 word) < 32"
    and "\<not> (i2c_semaphore (example_device 1) \<and> lock_held (example_world [ESP_ERR_TIMEOUT]))"
    and "next_outcome (example_world [ESP_ERR_TIMEOUT]) \<noteq> ESP_OK"
    by (simp_all add: example_device_def example_world_def next_outcome_def)
  from gpio_cache_kept_on_failure [OF this, of example_regs True]
  show ?thesis
    by (simp add: example_device_def example_world_def next_outcome_def)
qed

text \<open>
  The claim as it was stated fails: after a write that timed out, the cached
  direction byte is \<open>1\<close>, where it was \<open>0\<close> before the call.
\<close>

theorem gpio_cache_rollback_counterexample:
  "(case rp2040_set_gpio_dir example_regs (example_device 1) 0 True (example_world [ESP_ERR_TIMEOUT]) of
      Inl f \<Rightarrow> False
    | Inr (res, device', w') \<Rightarrow>
        res = ESP_ERR_TIMEOUT \<and> gpio_direction device' = 1 \<and>
        gpio_direction device' \<noteq> gpio_direction (example_device 1))"
  by (simp add: rp2040_set_gpio_dir_def write_reg_result example_device_def example_world_def
        next_outcome_def)

text \<open>
  C10, as amended. For a bit index from 8 to 31, a version that passes the gate and a
  free bus lock, \<open>rp2040_set_gpio_dir\<close> and \<open>rp2040_set_gpio_value\<close> leave the structure as it was,
  hand the transport the write of the whole unchanged byte, and return the transport's
  result: \<open>ESP_OK\<close> when the write succeeds, and never a rejection of the index.
\<close>

theorem gpio_index_beyond_byte:
  assumes "0x01 \<le> fw_version device" and "fw_version device \<noteq> 0xFF"
      and "8 \<le> unat gpio" and "unat gpio < 32"
      and "\<not> (i2c_semaphore device \<and> lock_held w)"
  shows "(\<exists>w'. rp2040_set_gpio_dir R device gpio b w = Inr (next_outcome w, device, w') \<and>
            log w' = log w @ [Transmit [R RP2040_REG_GPIO_DIR, gpio_direction device]]) \<and>
         (\<exists>w'. rp2040_set_gpio_value R device gpio b w = Inr (next_outcome w, device, w') \<and>
            log w' = log w @ [Transmit [R RP2040_REG_GPIO_OUT, gpio_value device]])"
proof -
  have gate: "\<not> (fw_version device < 0x01 \<or> fw_version device = 0xFF)"
    using assms(1,2) by (rule gate_01_passed)
  show ?thesis
    using assms(3)
    by (simp add: set_gpio_dir_result [OF gate assms(4,5)]
          set_gpio_value_result [OF gate assms(4,5)] Let_def
          set_bit_beyond_byte unset_bit_beyond_byte)
qed

theorem gpio_index_beyond_byte_witness:
  "(\<exists>w'. rp2040_set_gpio_dir example_regs (example_device 1) 8 True (example_world []) =
      Inr (ESP_OK, example_device 1, w') \<and>
      log w' = [Transmit [1, 0]]) \<and>
   (\<exists>w'. rp2040_set_gpio_value example_regs (example_device 1) 31 True (example_world []) =
      Inr (ESP_OK, example_device 1, w') \<and>
      log w' = [Transmit [3, 0]])"
proof -
  have pre: "0x01 \<le> fw_version (example_device 1)" "fw_version (example_device 1) \<noteq> 0xFF"
    and free: "\<not> (i2c_semaphore (example_device 1) \<and> lock_held (example_world []))"
    and ok: "next_outcome (example_world []) = ESP_OK"
    and c: "gpio_direction (example_device 1) = 0" "gpio_value (example_device 1) = 0"
    and l: "log (example_world []) = []"
    by (simp_all add: example_device_def example_world_def next_outcome_def)
  have a: "8 \<le> unat (8 :: 8 word)" "unat (8 :: 8 word) < 32"
    and b: "8 \<le> unat (31 :: 8 word)" "unat (31 :: 8 word) < 32"
    by simp_all
  from gpio_index_beyond_byte [OF pre a free, of example_regs True]
       gpio_index_beyond_byte [OF pre b free, of example_regs True]
  show ?thesis
    unfolding ok c l example_regs.simps by simp
qed

text \<open>
  The claim as it was stated reaches up to index 63. \<open>unsigned long\<close> has 32 bits on
  the ESP32, so \<open>1UL << 32\<close> is not defined.
\<close>

theorem gpio_index_32_counterexample:
  "rp2040_set_gpio_dir example_regs (example_device 1) 32 True (example_world []) = Inl Undefined \<and>
   rp2040_set_gpio_value example_regs (example_device 1) 32 True (example_world []) = Inl Undefined"
  by (simp add: rp2040_set_gpio_dir_def rp2040_set_gpio_value_def example_device_def)

subsection \<open>Analog readings\<close>

lemma bitlen_pos: "0 < n \<Longrightarrow> 1 \<le> bitlen n"
  by (induction n rule: bitlen.induct) (simp add: bitlen.simps)

lemma bitlen_nonneg: "0 \<le> bitlen n"
  by (induction n rule: bitlen.induct) (simp add: bitlen.simps)

lemma bitlen_bounds:
  "0 < n \<Longrightarrow> 2 ^ nat (bitlen n - 1) \<le> n \<and> n < 2 ^ nat (bitlen n)"
proof (induction n rule: bitlen.induct)
  case (1 n)
  show ?case
  proof (cases "n div 2 = 0")
    case True
    with \<open>0 < n\<close> have "n = 1" by presburger
    then show ?thesis
      by (simp add: bitlen.simps)
  next
    case False
    with \<open>0 < n\<close> have pos: "0 < n div 2" by presburger
    let ?k = "bitlen (n div 2)"
    from "1.IH" pos \<open>0 < n\<close> have ih: "2 ^ nat (?k - 1) \<le> n div 2" "n div 2 < 2 ^ nat ?k"
      by simp_all
    have k: "1 \<le> ?k" using pos by (rule bitlen_pos)
    have unfold: "bitlen n = 1 + ?k"
      using \<open>0 < n\<close> by (subst bitlen.simps) simp
    have "nat ?k = Suc (nat (?k - 1))" using k by simp
    then have p: "(2::int) ^ nat ?k = 2 * 2 ^ nat (?k - 1)" by simp
    have p': "(2::int) ^ nat (1 + ?k) = 2 * 2 ^ nat ?k"
      using k by (simp add: nat_add_distrib)
    from ih(1) have "2 * 2 ^ nat (?k - 1) \<le> n" by presburger
    moreover from ih(2) have "n < 2 * 2 ^ nat ?k" by presburger
    ultimately show ?thesis
      by (simp add: unfold p p')
  qed
qed

lemma nearest_even_error:
  assumes "0 < den" and "0 \<le> num"
  shows "\<bar>of_int (nearest_even num den) - (of_int num / of_int den :: rat)\<bar> \<le> 1 / 2"
proof -
  define q r where "q = num div den" and "r = num mod den"
  have num: "num = q * den + r" and r: "0 \<le> r" "r < den"
    using assms by (simp_all add: q_def r_def)
  have frac: "(of_int num / of_int den :: rat) = of_int q + of_int r / of_int den"
    using assms(1) by (simp add: num field_simps)
  have d: "(0::rat) < of_int den" using assms(1) by simp
  consider "2 * r < den" | "den < 2 * r" | "2 * r = den" by linarith
  then show ?thesis
  proof cases
    case 1
    then have "nearest_even num den = q"
      by (simp add: nearest_even_def q_def r_def)
    moreover have "(of_int r / of_int den :: rat) \<le> 1 / 2"
      using 1 d by (simp add: field_simps)
    moreover have "(0::rat) \<le> of_int r / of_int den" using r d by simp
    ultimately show ?thesis by (simp add: frac)
  next
    case 2
    then have "nearest_even num den = q + 1"
      by (simp add: nearest_even_def q_def r_def)
    moreover have "(1 / 2 :: rat) \<le> of_int r / of_int den"
      using 2 d by (simp add: field_simps)
    moreover have "(of_int r / of_int den :: rat) \<le> 1" using r d by simp
    ultimately show ?thesis by (simp add: frac)
  next
    case 3
    then have either: "nearest_even num den = q \<or> nearest_even num den = q + 1"
      by (simp add: nearest_even_def q_def r_def)
    have "(of_int den :: rat) = 2 * of_int r"
      using 3 by (metis of_int_mult of_int_numeral)
    then have half: "(of_int r / of_int den :: rat) = 1 / 2"
      using d by simp
    from either show ?thesis
    proof
      assume "nearest_even num den = q"
      then show ?thesis unfolding frac half by simp
    next
      assume "nearest_even num den = q + 1"
      then show ?thesis unfolding frac half by simp
    qed
  qed
qed


lemma powi_nat: "0 \<le> k \<Longrightarrow> (2::rat) powi k = 2 ^ nat k"
  by (simp add: power_int_def)

lemma powi_pos: "(0::rat) < 2 powi k"
  by (simp add: power_int_def)

lemma powi_Suc: "(2::rat) powi (k + 1) = 2 * 2 powi k"
  by (simp add: power_int_add)

lemma powi_diff: "(2::rat) powi (i - j) = 2 powi i / 2 powi j"
  by (simp add: power_int_diff)

lemma scaled_ratio:
  "b \<noteq> 0 \<Longrightarrow>
   (of_int (a * 2 ^ nat (- s)) :: rat) / of_int (b * 2 ^ nat s) = (of_int a / of_int b) / 2 powi s"
  by (cases "0 \<le> s") (simp_all add: power_int_def field_simps)

lemma bitlen_rat:
  assumes "0 < n"
  shows "2 powi (bitlen n - 1) \<le> (of_int n :: rat)" and "(of_int n :: rat) < 2 powi (bitlen n)"
proof -
  from bitlen_bounds [OF assms] have lo: "2 ^ nat (bitlen n - 1) \<le> n" and hi: "n < 2 ^ nat (bitlen n)"
    by simp_all
  have k: "1 \<le> bitlen n" using assms by (rule bitlen_pos)
  from lo have "(of_int (2 ^ nat (bitlen n - 1)) :: rat) \<le> of_int n"
    by (simp only: of_int_le_iff)
  then show "2 powi (bitlen n - 1) \<le> (of_int n :: rat)"
    using k by (simp add: powi_nat)
  from hi have "(of_int n :: rat) < of_int (2 ^ nat (bitlen n))"
    by (simp only: of_int_less_iff)
  then show "(of_int n :: rat) < 2 powi (bitlen n)"
    using k by (simp add: powi_nat)
qed

lemma floor_log2_bounds:
  assumes "0 < a" and "0 < b"
  shows "2 powi (floor_log2 a b) \<le> (of_int a / of_int b :: rat)"
    and "(of_int a / of_int b :: rat) < 2 powi (floor_log2 a b + 1)"
proof -
  let ?x = "of_int a / of_int b :: rat"
  let ?e0 = "bitlen a - bitlen b"
  have a: "(0::rat) < of_int a" and b: "(0::rat) < of_int b"
    using assms by simp_all
  note la = bitlen_rat [OF assms(1)] and lb = bitlen_rat [OF assms(2)]
  have upper: "?x < 2 powi (?e0 + 1)"
  proof -
    have "?x < 2 powi (bitlen a) / of_int b"
      using la(2) b by (simp add: divide_strict_right_mono)
    also have "\<dots> \<le> 2 powi (bitlen a) / 2 powi (bitlen b - 1)"
      using lb(1) powi_pos [of "bitlen b - 1"] powi_pos [of "bitlen a"]
      by (simp add: frac_le)
    also have "\<dots> = 2 powi (?e0 + 1)"
      by (simp add: powi_diff [symmetric] algebra_simps)
    finally show ?thesis .
  qed
  have lower: "2 powi (?e0 - 1) \<le> ?x"
  proof -
    have "?e0 - 1 = (bitlen a - 1) - bitlen b"
      by simp
    then have "(2::rat) powi (?e0 - 1) = 2 powi (bitlen a - 1) / 2 powi (bitlen b)"
      by (simp only: powi_diff)
    also have "\<dots> \<le> of_int a / 2 powi (bitlen b)"
      using la(1) powi_pos [of "bitlen b"] by (simp add: divide_right_mono)
    also have "\<dots> \<le> ?x"
      using lb(2) a b by (simp add: frac_le)
    finally show ?thesis .
  qed
  have test: "(b * 2 ^ nat ?e0 \<le> a * 2 ^ nat (- ?e0)) = (2 powi ?e0 \<le> ?x)"
  proof -
    have "(b * 2 ^ nat ?e0 \<le> a * 2 ^ nat (- ?e0)) =
          ((of_int (b * 2 ^ nat ?e0) :: rat) \<le> of_int (a * 2 ^ nat (- ?e0)))"
      by (simp only: of_int_le_iff)
    also have "\<dots> = (1 \<le> (of_int (a * 2 ^ nat (- ?e0)) :: rat) / of_int (b * 2 ^ nat ?e0))"
      using b by (simp add: field_simps)
    also have "\<dots> = (1 \<le> ?x / 2 powi ?e0)"
      using assms(2) by (simp only: scaled_ratio)
    also have "\<dots> = (2 powi ?e0 \<le> ?x)"
      by (rule le_divide_eq_1_pos [OF powi_pos])
    finally show ?thesis .
  qed
  show "2 powi (floor_log2 a b) \<le> ?x"
    using lower test by (simp add: floor_log2_def Let_def)
  show "?x < 2 powi (floor_log2 a b + 1)"
    using upper test by (auto simp: floor_log2_def Let_def not_le)
qed


lemma abs_scale:
  assumes "0 < (p::rat)"
  shows "\<bar>n * p - x\<bar> = \<bar>n - x / p\<bar> * p"
proof -
  have "n * p - x = (n - x / p) * p"
    using assms by (simp add: field_simps)
  then have "\<bar>n * p - x\<bar> = \<bar>(n - x / p) * p\<bar>"
    by (simp only:)
  also have "\<dots> = \<bar>n - x / p\<bar> * \<bar>p\<bar>"
    by (rule abs_mult)
  finally show ?thesis
    using assms by simp
qed

lemma round_ratio_unfold:
  assumes "0 < a" and "0 < b"
  shows "round_ratio a b =
           (nearest_even (a * 2 ^ nat (- (floor_log2 a b - 23))) (b * 2 ^ nat (floor_log2 a b - 23)),
            floor_log2 a b - 23)"
  using assms by (simp add: round_ratio_def Let_def)

lemma round_ratio_props:
  assumes "0 < a" and "0 < b"
  shows "\<bar>valof (round_ratio a b) - of_int a / of_int b\<bar> \<le> (of_int a / of_int b) / 2 ^ 24"
    and "fst (round_ratio a b) \<le> 2 ^ 24"
    and "0 \<le> fst (round_ratio a b)"
proof -
  let ?x = "of_int a / of_int b :: rat"
  let ?e = "floor_log2 a b"
  let ?s = "?e - 23"
  let ?num = "a * 2 ^ nat (- ?s)" and ?den = "b * 2 ^ nat ?s"
  let ?n = "nearest_even ?num ?den"
  have den: "0 < ?den" and num: "0 \<le> ?num"
    using assms by simp_all
  have q: "(of_int ?num :: rat) / of_int ?den = ?x / 2 powi ?s"
    using assms(2) by (intro scaled_ratio) simp
  have near: "\<bar>of_int ?n - ?x / 2 powi ?s\<bar> \<le> 1 / 2"
    using nearest_even_error [OF den num] by (simp only: q)
  note e = floor_log2_bounds [OF assms]
  have ulp: "(2::rat) powi ?s = 2 powi ?e / 2 ^ 23"
    by (simp add: powi_diff powi_nat)
  have p: "(0::rat) < 2 powi ?s"
    by (rule powi_pos)
  have val: "valof (round_ratio a b) = of_int ?n * 2 powi ?s"
    by (simp add: round_ratio_unfold [OF assms] valof_def)
  have "\<bar>of_int ?n * 2 powi ?s - ?x\<bar> = \<bar>of_int ?n - ?x / 2 powi ?s\<bar> * 2 powi ?s"
    using p by (rule abs_scale)
  also have "\<dots> \<le> (1 / 2) * 2 powi ?s"
    using near p by (simp add: mult_right_mono)
  also have "\<dots> \<le> ?x / 2 ^ 24"
    using e(1) by (simp add: ulp)
  finally show "\<bar>valof (round_ratio a b) - ?x\<bar> \<le> ?x / 2 ^ 24"
    by (simp only: val)
  have "?x / 2 powi ?s < 2 ^ 24"
  proof -
    have "?x / 2 powi ?s < 2 powi (?e + 1) / 2 powi ?s"
      using e(2) p by (rule divide_strict_right_mono)
    also have "\<dots> = 2 powi 24"
      by (simp add: powi_diff [symmetric])
    finally show ?thesis
      by (simp add: powi_nat)
  qed
  with near have "(of_int ?n :: rat) < 2 ^ 24 + 1"
    by linarith
  then have "(of_int ?n :: rat) < of_int (2 ^ 24 + 1)"
    by simp
  then have "?n < 2 ^ 24 + 1"
    by (simp only: of_int_less_iff)
  then show "fst (round_ratio a b) \<le> 2 ^ 24"
    by (simp add: round_ratio_unfold [OF assms])
  have "0 \<le> ?num div ?den"
    using den num by (simp add: pos_imp_zdiv_nonneg_iff)
  then have "0 \<le> ?n"
    by (simp add: nearest_even_def)
  then show "0 \<le> fst (round_ratio a b)"
    by (simp add: round_ratio_unfold [OF assms])
qed


lemma nearest_even_dvd:
  assumes "0 < den" and "den dvd num"
  shows "nearest_even num den = num div den"
proof -
  from assms(2) have "num mod den = 0"
    by (simp only: mod_eq_0_iff_dvd)
  with assms(1) show ?thesis
    by (simp add: nearest_even_def)
qed

lemma round_ratio_exact:
  assumes "0 < m" and "m \<le> 2 ^ 24"
  shows "valof (round_ratio (m * 2 ^ k) 1) = of_int m * 2 ^ k"
proof -
  let ?a = "m * 2 ^ k"
  let ?e = "floor_log2 ?a 1"
  let ?s = "?e - 23"
  let ?num = "?a * 2 ^ nat (- ?s)" and ?den = "(1::int) * 2 ^ nat ?s"
  have a: "0 < ?a" using assms(1) by simp
  note e = floor_log2_bounds [OF a zero_less_one]
  define P :: nat where "P = 24"
  have mP: "m \<le> 2 ^ P" using assms(2) by (simp add: P_def)
  then have "(of_int m :: rat) \<le> of_int (2 ^ P)"
    by (simp only: of_int_le_iff)
  then have step: "(of_int m :: rat) * 2 ^ k \<le> 2 ^ P * 2 ^ k"
    by (intro mult_right_mono) simp_all
  have "(2::rat) powi ?e \<le> of_int m * 2 ^ k"
    using e(1) by simp
  from this step have "(2::rat) powi ?e \<le> 2 ^ P * 2 ^ k"
    by (rule order_trans)
  then have "(2::rat) powi ?e \<le> 2 ^ (P + k)"
    by (simp only: power_add)
  then have "(2::rat) powi ?e \<le> 2 powi (int (P + k))"
    by (simp only: power_int_of_nat)
  then have "?e \<le> int (P + k)"
    by (rule power_int_le_imp_le_exp [rotated]) simp_all
  then have le: "?e \<le> 24 + int k"
    by (simp add: P_def)
  have dvd: "?den dvd ?num"
  proof (cases "?s \<le> 0")
    case True
    then show ?thesis by simp
  next
    case False
    then have n0: "nat (- ?s) = 0" by simp
    show ?thesis
    proof (cases "nat ?s \<le> k")
      case True
      then have "(2::int) ^ nat ?s dvd 2 ^ k"
        by (rule le_imp_power_dvd)
      then show ?thesis
        by (simp add: n0)
    next
      case hi: False
      with le False have s: "nat ?s = Suc k" and ee: "?e = 24 + int k"
        by linarith+
      have "?e = int (P + k)"
        using ee by (simp add: P_def)
      with e(1) have "(2::rat) powi (int (P + k)) \<le> of_int m * 2 ^ k"
        by simp
      then have "(2::rat) ^ P * 2 ^ k \<le> of_int m * 2 ^ k"
        by (simp only: power_int_of_nat power_add)
      then have "(2::rat) ^ P \<le> of_int m"
        by simp
      then have "(of_int (2 ^ P) :: rat) \<le> of_int m"
        by simp
      then have "2 ^ P \<le> m"
        by (simp only: of_int_le_iff)
      with mP have m: "m = 2 ^ P"
        by simp
      have num: "?num = m * 2 ^ k"
        by (simp only: n0 power_0 mult_1_right)
      have den: "?den = 2 ^ Suc k"
        by (simp only: s mult_1)
      have "(2::int) ^ Suc k dvd 2 ^ (P + k)"
        by (rule le_imp_power_dvd) (simp add: P_def)
      then have "(2::int) ^ Suc k dvd m * 2 ^ k"
        by (simp only: m power_add)
      then show ?thesis
        by (simp only: num den)
    qed
  qed
  have den: "0 < ?den" by simp
  note n = nearest_even_dvd [OF den dvd]
  have "valof (round_ratio ?a 1) = of_int (?num div ?den) * 2 powi ?s"
    by (simp only: round_ratio_unfold [OF a zero_less_one] valof_def n fst_conv snd_conv)
  also have "\<dots> = (of_int ?num / of_int ?den) * 2 powi ?s"
    using dvd by (simp only: of_int_div)
  also have "\<dots> = (of_int ?a / of_int 1) / 2 powi ?s * 2 powi ?s"
    by (subst scaled_ratio) simp_all
  also have "\<dots> = of_int m * 2 ^ k"
    using powi_pos [of ?s] by simp
  finally show ?thesis .
qed


lemma round_ratio_zero: "round_ratio 0 b = (0, 0)"
  by (simp add: round_ratio_def)

lemma valof_zero: "valof (0, e) = 0"
  by (simp add: valof_def)

lemma f32_of_int_exact:
  assumes "0 \<le> n" and "n \<le> 2 ^ 24"
  shows "valof (f32_of_int n) = of_int n"
proof (cases "n = 0")
  case True
  then show ?thesis
    by (simp add: f32_of_int_def round_ratio_zero valof_zero)
next
  case False
  with assms(1) have "0 < n" by simp
  from round_ratio_exact [OF this assms(2), of 0] show ?thesis
    by (simp add: f32_of_int_def)
qed

lemma round_ratio_mantissa:
  "0 \<le> fst (round_ratio a b) \<and> fst (round_ratio a b) \<le> 2 ^ 24"
proof (cases "0 < a \<and> 0 < b")
  case True
  then show ?thesis
    using round_ratio_props(2,3) [of a b] by simp
next
  case False
  then have "round_ratio a b = (0, 0)"
    by (auto simp: round_ratio_def)
  then show ?thesis by simp
qed

lemma valof_f32_mul:
  "valof (f32_mul x y) = valof (round_ratio (fst x * fst y) 1) * 2 powi (snd x + snd y)"
  by (simp add: f32_mul_def valof_def split_beta power_int_add add.assoc)

lemma fst_f32_mul: "fst (f32_mul x y) = fst (round_ratio (fst x * fst y) 1)"
  by (simp add: f32_mul_def split_beta)

lemma valof_mult: "valof x * valof y = of_int (fst x * fst y) * 2 powi (snd x + snd y)"
  by (simp add: valof_def power_int_add)

lemma f32_mul_error:
  assumes "0 \<le> fst x" and "0 \<le> fst y"
  shows "\<bar>valof (f32_mul x y) - valof x * valof y\<bar> \<le> valof x * valof y / 2 ^ 24"
proof (cases "fst x * fst y = 0")
  case True
  then show ?thesis
    by (simp only: valof_f32_mul valof_mult round_ratio_zero valof_zero)
next
  case False
  with assms have p: "0 < fst x * fst y"
    by (simp add: zero_less_mult_iff less_le)
  let ?p = "fst x * fst y" and ?c = "(2::rat) powi (snd x + snd y)"
  have c: "0 < ?c" by (rule powi_pos)
  from round_ratio_props(1) [OF p zero_less_one]
  have "\<bar>valof (round_ratio ?p 1) - of_int ?p\<bar> \<le> of_int ?p / 2 ^ 24"
    by simp
  then have "\<bar>valof (round_ratio ?p 1) - of_int ?p\<bar> * ?c \<le> of_int ?p / 2 ^ 24 * ?c"
    using c by (simp only: mult_le_cancel_right_pos)
  moreover have "\<bar>valof (round_ratio ?p 1) - of_int ?p\<bar> * ?c =
      \<bar>valof (round_ratio ?p 1) * ?c - of_int ?p * ?c\<bar>"
    using c by (simp add: abs_mult left_diff_distrib [symmetric])
  ultimately show ?thesis
    by (simp only: valof_f32_mul valof_mult) simp
qed

lemma f32_mul_exact:
  assumes "0 \<le> fst x" and "fst x \<le> 2 ^ 24"
  shows "valof (f32_mul x (2 ^ k, e)) = valof x * valof (2 ^ k, e)"
proof (cases "fst x = 0")
  case True
  then show ?thesis
    by (simp only: valof_f32_mul valof_mult) (simp add: round_ratio_zero valof_zero)
next
  case False
  with assms(1) have "0 < fst x" by simp
  from round_ratio_exact [OF this assms(2), of k] show ?thesis
    by (simp only: valof_f32_mul valof_mult fst_conv) simp
qed

lemma conversion_factor_value: "conversion_factor = (13841203, - 34)"
  by code_simp

lemma f32_two: "f32_of_int 2 = (2 ^ 23, - 22)"
  by code_simp

lemma valof_neg: "valof (m, - int k) = of_int m / 2 ^ k"
  by (simp add: valof_def power_int_minus divide_inverse)

lemma conversion_factor_valof: "valof conversion_factor = 13841203 / 2 ^ 34"
  using valof_neg [of 13841203 34] by (simp only: conversion_factor_value) simp

lemma valof_two: "valof (2 ^ 23, - 22) = 2"
  using valof_neg [of "2 ^ 23" 22] by simp

lemma conversion_bound:
  assumes "0 \<le> n" and "n \<le> 2 ^ 24"
  shows "\<bar>valof (f32_mul (f32_mul (f32_of_int n) conversion_factor) (f32_of_int 2)) -
            of_int n * (33 / 10 / 4096) * 2\<bar>
           \<le> of_int n * (33 / 10 / 4096) * 2 / 2 ^ 23"
proof -
  let ?x = "f32_of_int n"
  let ?z = "f32_mul ?x conversion_factor"
  have x: "valof ?x = of_int n"
    using assms by (rule f32_of_int_exact)
  have fx: "0 \<le> fst ?x"
    using round_ratio_mantissa [of n 1] by (simp add: f32_of_int_def)
  have fc: "0 \<le> fst conversion_factor"
    by (simp add: conversion_factor_value)
  have fz: "0 \<le> fst ?z" "fst ?z \<le> 2 ^ 24"
    using round_ratio_mantissa [of "fst ?x * fst conversion_factor" 1]
    by (simp_all only: fst_f32_mul)
  have "valof (f32_mul ?z (f32_of_int 2)) = valof ?z * valof (2 ^ 23, - 22)"
    unfolding f32_two by (rule f32_mul_exact [OF fz])
  then have v: "valof (f32_mul ?z (f32_of_int 2)) = valof ?z * 2"
    by (simp only: valof_two)
  have "\<bar>valof ?z - valof ?x * valof conversion_factor\<bar> \<le> valof ?x * valof conversion_factor / 2 ^ 24"
    using fx fc by (rule f32_mul_error)
  then have z: "\<bar>valof ?z - of_int n * (13841203 / 2 ^ 34)\<bar> \<le> of_int n * (13841203 / 2 ^ 34) / 2 ^ 24"
    by (simp only: x conversion_factor_valof)
  have n: "(0::rat) \<le> of_int n"
    using assms(1) by simp
  define r :: rat where "r = of_int n"
  define t where "t = valof ?z"
  from z have z1: "t - r * (13841203 / 2 ^ 34) \<le> r * (13841203 / 2 ^ 34) / 2 ^ 24"
    and z2: "- (t - r * (13841203 / 2 ^ 34)) \<le> r * (13841203 / 2 ^ 34) / 2 ^ 24"
    unfolding r_def [symmetric] t_def [symmetric] by (simp_all only: abs_le_iff)
  have "t * 2 - r * (33 / 10 / 4096) * 2 \<le> r * (33 / 10 / 4096) * 2 / 2 ^ 23"
    using z1 n unfolding r_def [symmetric] by simp
  moreover have "- (t * 2 - r * (33 / 10 / 4096) * 2) \<le> r * (33 / 10 / 4096) * 2 / 2 ^ 23"
    using z2 n unfolding r_def [symmetric] by simp
  ultimately show ?thesis
    unfolding v r_def [symmetric] t_def [symmetric] by (simp only: abs_le_iff)
qed

lemma conversion_within_rounding:
  "\<bar>valof (f32_mul (f32_mul (f32_of_int (uint (raw :: 16 word))) conversion_factor) (f32_of_int 2)) -
     spec_voltage raw\<bar> \<le> spec_voltage raw / 2 ^ 23"
proof -
  have "uint raw < 2 ^ 16"
    using uint_lt2p [of raw] by simp
  then have "uint raw \<le> 2 ^ 24"
    by simp
  with uint_ge_0 [of raw] show ?thesis
    unfolding spec_voltage_def by (rule conversion_bound)
qed

lemma conversion_values:
  "f32_mul (f32_mul (f32_of_int 4095) conversion_factor) (f32_of_int 2) = (13837824, - 21)"
  "f32_mul (f32_mul (f32_of_int 1) conversion_factor) (f32_of_int 2) = (13841203, - 33)"
  "f32_mul (f32_mul (f32_of_int 0) conversion_factor) (f32_of_int 2) = (0, - 56)"
  by code_simp+

lemma valof_values:
  "valof (13837824, - 21) = 27027 / 4096"
  "valof (13841203, - 33) = 13841203 / 8589934592"
  "valof (0, - 56) = 0"
  using valof_neg [of 13837824 21] valof_neg [of 13841203 33] valof_neg [of 0 56] by simp_all

lemma read_vbat_ok:
  assumes "rp2040_read_vbat R device w = Inr (ESP_OK, out, w')"
  shows "out = Some (f32_mul (f32_mul (f32_of_int (uint
           (le_word (load (R RP2040_REG_ADC_VALUE_VBAT_LO) 2 (regs w)) :: 16 word))) conversion_factor)
           (f32_of_int 2))"
proof (cases "i2c_semaphore device \<and> lock_held w")
  case True
  with assms show ?thesis
    by (simp add: rp2040_read_vbat_def rp2040_read_vbat_raw_def read_reg_blocked split: if_splits)
next
  case False
  with assms show ?thesis
    by (simp add: rp2040_read_vbat_def rp2040_read_vbat_raw_def read_reg_result split: if_splits)
qed

lemma read_vusb_ok:
  assumes "rp2040_read_vusb R device w = Inr (ESP_OK, out, w')"
  shows "out = Some (f32_mul (f32_mul (f32_of_int (uint
           (le_word (load (R RP2040_REG_ADC_VALUE_VUSB_LO) 2 (regs w)) :: 16 word))) conversion_factor)
           (f32_of_int 2))"
proof (cases "i2c_semaphore device \<and> lock_held w")
  case True
  with assms show ?thesis
    by (simp add: rp2040_read_vusb_def rp2040_read_vusb_raw_def read_reg_blocked split: if_splits)
next
  case False
  with assms show ?thesis
    by (simp add: rp2040_read_vusb_def rp2040_read_vusb_raw_def read_reg_result split: if_splits)
qed

lemma read_voltage_returns:
  assumes "\<not> (fw_version device < 0x02 \<or> fw_version device = 0xFF)"
    and "\<not> (i2c_semaphore device \<and> lock_held w)" and "next_outcome w = ESP_OK"
  shows "\<exists>v w'. rp2040_read_vbat R device w = Inr (ESP_OK, Some v, w')"
    and "\<exists>v w'. rp2040_read_vusb R device w = Inr (ESP_OK, Some v, w')"
  using assms
  by (simp_all add: rp2040_read_vbat_def rp2040_read_vbat_raw_def rp2040_read_vusb_def
        rp2040_read_vusb_raw_def read_reg_result)

lemma example_adc_codes:
  "(le_word (load (example_regs RP2040_REG_ADC_VALUE_VBAT_LO) 2 (regs (example_adc_world 0xFF 0x0F))) :: 16 word) = 4095"
  "(le_word (load (example_regs RP2040_REG_ADC_VALUE_VUSB_LO) 2 (regs (example_adc_world 0xFF 0x0F))) :: 16 word) = 4095"
  "(le_word (load (example_regs RP2040_REG_ADC_VALUE_VBAT_LO) 2 (regs (example_adc_world 0x01 0x00))) :: 16 word) = 1"
  "(le_word (load (example_regs RP2040_REG_ADC_VALUE_VBAT_LO) 2 (regs (example_world []))) :: 16 word) = 0"
  "(le_word (load (example_regs RP2040_REG_ADC_VALUE_VUSB_LO) 2 (regs (example_world []))) :: 16 word) = 0"
  by code_simp+

text \<open>
  C8, as amended. The claim: on a successful read, \<open>rp2040_read_vbat\<close> and
  \<open>rp2040_read_vusb\<close> convert the raw 16-bit code to a voltage equal to
  \<open>raw * (3.3 / 4096) * 2\<close>; raw code 4095 converts to \<open>2 * 3.3 * 4095 / 4096\<close>, about
  6.5967, and raw code 0 to 0. What holds: when either function returns \<open>ESP_OK\<close>, it
  stores the single-precision value of \<open>raw * conversion_factor * 2\<close>, \<open>raw\<close> being the
  little-endian code of the two bytes at the function's register; that value is within
  the relative error \<open>2 ^ - 23\<close> of \<open>raw * (3.3 / 4096) * 2\<close>, it is exactly
  \<open>27027 / 4096 = 2 * 3.3 * 4095 / 4096\<close> (6.5984 to four places) for the code 4095 and
  exactly 0 for the code 0. Both functions do return \<open>ESP_OK\<close> with a value when the
  cached version is at least \<open>0x02\<close> and not \<open>0xFF\<close>, the bus lock is free and the
  transport succeeds.
\<close>

theorem adc_conversion:
  fixes R :: regmap and device :: RP2040 and w w' :: world and out :: "binary32 option"
  defines "vbat \<equiv> le_word (load (R RP2040_REG_ADC_VALUE_VBAT_LO) 2 (regs w)) :: 16 word"
    and "vusb \<equiv> le_word (load (R RP2040_REG_ADC_VALUE_VUSB_LO) 2 (regs w)) :: 16 word"
  shows
    "(rp2040_read_vbat R device w = Inr (ESP_OK, out, w') \<longrightarrow>
        (\<exists>v. out = Some v \<and>
           \<bar>valof v - spec_voltage vbat\<bar> \<le> spec_voltage vbat / 2 ^ 23 \<and>
           (vbat = 4095 \<longrightarrow> valof v = 27027 / 4096) \<and>
           (vbat = 0 \<longrightarrow> valof v = 0))) \<and>
     (rp2040_read_vusb R device w = Inr (ESP_OK, out, w') \<longrightarrow>
        (\<exists>v. out = Some v \<and>
           \<bar>valof v - spec_voltage vusb\<bar> \<le> spec_voltage vusb / 2 ^ 23 \<and>
           (vusb = 4095 \<longrightarrow> valof v = 27027 / 4096) \<and>
           (vusb = 0 \<longrightarrow> valof v = 0))) \<and>
     (\<not> (fw_version device < 0x02 \<or> fw_version device = 0xFF) \<and>
      \<not> (i2c_semaphore device \<and> lock_held w) \<and> next_outcome w = ESP_OK \<longrightarrow>
        (\<exists>v w1. rp2040_read_vbat R device w = Inr (ESP_OK, Some v, w1)) \<and>
        (\<exists>v w1. rp2040_read_vusb R device w = Inr (ESP_OK, Some v, w1))) \<and>
     spec_voltage 4095 = 27027 / 4096 \<and> spec_voltage 4095 = 2 * (33 / 10) * 4095 / 4096 \<and>
     spec_voltage 0 = 0"
proof -
  have exact: "valof (f32_mul (f32_mul (f32_of_int (uint raw)) conversion_factor) (f32_of_int 2)) = 27027 / 4096"
    if "raw = 4095" for raw :: "16 word"
    using that by (simp add: conversion_values valof_values)
  have zero: "valof (f32_mul (f32_mul (f32_of_int (uint raw)) conversion_factor) (f32_of_int 2)) = 0"
    if "raw = 0" for raw :: "16 word"
    using that by (simp add: conversion_values valof_values)
  have "\<exists>v. out = Some v \<and>
           \<bar>valof v - spec_voltage vbat\<bar> \<le> spec_voltage vbat / 2 ^ 23 \<and>
           (vbat = 4095 \<longrightarrow> valof v = 27027 / 4096) \<and> (vbat = 0 \<longrightarrow> valof v = 0)"
    if "rp2040_read_vbat R device w = Inr (ESP_OK, out, w')"
    using read_vbat_ok [OF that] conversion_within_rounding [of vbat] exact [of vbat] zero [of vbat]
    unfolding vbat_def by blast
  moreover have "\<exists>v. out = Some v \<and>
           \<bar>valof v - spec_voltage vusb\<bar> \<le> spec_voltage vusb / 2 ^ 23 \<and>
           (vusb = 4095 \<longrightarrow> valof v = 27027 / 4096) \<and> (vusb = 0 \<longrightarrow> valof v = 0)"
    if "rp2040_read_vusb R device w = Inr (ESP_OK, out, w')"
    using read_vusb_ok [OF that] conversion_within_rounding [of vusb] exact [of vusb] zero [of vusb]
    unfolding vusb_def by blast
  moreover have "spec_voltage 4095 = 27027 / 4096" "spec_voltage 4095 = 2 * (33 / 10) * 4095 / 4096"
    "spec_voltage 0 = 0"
    by (simp_all add: spec_voltage_def)
  ultimately show ?thesis
    using read_voltage_returns [of device w R] by blast
qed

theorem adc_conversion_witness:
  "(\<exists>v w'. rp2040_read_vbat example_regs (example_device 2) (example_adc_world 0xFF 0x0F) =
        Inr (ESP_OK, Some v, w') \<and> valof v = 27027 / 4096) \<and>
   (\<exists>v w'. rp2040_read_vusb example_regs (example_device 2) (example_adc_world 0xFF 0x0F) =
        Inr (ESP_OK, Some v, w') \<and> valof v = 27027 / 4096) \<and>
   (\<exists>v w'. rp2040_read_vbat example_regs (example_device 2) (example_world []) =
        Inr (ESP_OK, Some v, w') \<and> valof v = 0) \<and>
   (\<exists>v w'. rp2040_read_vusb example_regs (example_device 2) (example_world []) =
        Inr (ESP_OK, Some v, w') \<and> valof v = 0)"
proof -
  have gate: "\<not> (fw_version (example_device 2) < 0x02 \<or> fw_version (example_device 2) = 0xFF)"
    by (simp add: example_device_def)
  have free: "\<not> (i2c_semaphore (example_device 2) \<and> lock_held (example_adc_world 0xFF 0x0F))"
    "\<not> (i2c_semaphore (example_device 2) \<and> lock_held (example_world []))"
    by (simp_all add: example_adc_world_def example_world_def)
  have ok: "next_outcome (example_adc_world 0xFF 0x0F) = ESP_OK" "next_outcome (example_world []) = ESP_OK"
    by (simp_all add: next_outcome_def example_adc_world_def example_world_def)
  have returns:
    "(\<exists>v w1. rp2040_read_vbat example_regs (example_device 2) w = Inr (ESP_OK, Some v, w1)) \<and>
     (\<exists>v w1. rp2040_read_vusb example_regs (example_device 2) w = Inr (ESP_OK, Some v, w1))"
    if "\<not> (i2c_semaphore (example_device 2) \<and> lock_held w)" and "next_outcome w = ESP_OK" for w
    using adc_conversion [where R = example_regs and device = "example_device 2" and w = w] gate that
    by blast
  have value_of:
    "(rp2040_read_vbat example_regs (example_device 2) w = Inr (ESP_OK, Some v, w1) \<longrightarrow>
       ((le_word (load (example_regs RP2040_REG_ADC_VALUE_VBAT_LO) 2 (regs w)) :: 16 word) = 4095 \<longrightarrow>
          valof v = 27027 / 4096) \<and>
       ((le_word (load (example_regs RP2040_REG_ADC_VALUE_VBAT_LO) 2 (regs w)) :: 16 word) = 0 \<longrightarrow>
          valof v = 0)) \<and>
     (rp2040_read_vusb example_regs (example_device 2) w = Inr (ESP_OK, Some v, w1) \<longrightarrow>
       ((le_word (load (example_regs RP2040_REG_ADC_VALUE_VUSB_LO) 2 (regs w)) :: 16 word) = 4095 \<longrightarrow>
          valof v = 27027 / 4096) \<and>
       ((le_word (load (example_regs RP2040_REG_ADC_VALUE_VUSB_LO) 2 (regs w)) :: 16 word) = 0 \<longrightarrow>
          valof v = 0))" for w v w1
    using adc_conversion [where R = example_regs and device = "example_device 2" and w = w
        and out = "Some v" and w' = w1]
    by blast
  from returns [OF free(1) ok(1)] returns [OF free(2) ok(2)] value_of example_adc_codes
  show ?thesis
    by metis
qed

text \<open>
  The claim as it was stated fails twice. The conversion is not equal to
  \<open>raw * (3.3 / 4096) * 2\<close>: for the raw code 1 the value stored is
  \<open>13841203 / 2 ^ 33\<close>, which is less. And the value for the raw code 4095,
  \<open>27027 / 4096\<close>, is more than a thousandth away from 6.5967.
\<close>

theorem adc_conversion_counterexample:
  "(\<exists>w'. rp2040_read_vbat example_regs (example_device 2) (example_adc_world 0x01 0x00) =
        Inr (ESP_OK, Some (13841203, - 33), w')) \<and>
   valof (13841203, - 33) = 13841203 / 2 ^ 33 \<and>
   valof (13841203, - 33) < spec_voltage 1 \<and>
   (\<exists>w'. rp2040_read_vbat example_regs (example_device 2) (example_adc_world 0xFF 0x0F) =
        Inr (ESP_OK, Some (13837824, - 21), w')) \<and>
   valof (13837824, - 21) = 27027 / 4096 \<and>
   1 / 1000 < \<bar>valof (13837824, - 21) - 65967 / 10000\<bar>"
proof -
  have gate: "\<not> (fw_version (example_device 2) < 0x02 \<or> fw_version (example_device 2) = 0xFF)"
    by (simp add: example_device_def)
  have free: "\<not> (i2c_semaphore (example_device 2) \<and> lock_held (example_adc_world 0x01 0x00))"
    "\<not> (i2c_semaphore (example_device 2) \<and> lock_held (example_adc_world 0xFF 0x0F))"
    by (simp_all add: example_adc_world_def example_world_def)
  have ok: "next_outcome (example_adc_world 0x01 0x00) = ESP_OK"
    "next_outcome (example_adc_world 0xFF 0x0F) = ESP_OK"
    by (simp_all add: next_outcome_def example_adc_world_def example_world_def)
  from read_voltage_returns(1) [OF gate free(1) ok(1), of example_regs]
  obtain v1 w1 where r1:
    "rp2040_read_vbat example_regs (example_device 2) (example_adc_world 0x01 0x00) =
       Inr (ESP_OK, Some v1, w1)"
    by blast
  from read_vbat_ok [OF r1] have "v1 = (13841203, - 33)"
    unfolding example_adc_codes by (simp add: conversion_values)
  with r1 have "\<exists>w'. rp2040_read_vbat example_regs (example_device 2) (example_adc_world 0x01 0x00) =
          Inr (ESP_OK, Some (13841203, - 33), w')"
    by blast
  moreover
  from read_voltage_returns(1) [OF gate free(2) ok(2), of example_regs]
  obtain v2 w2 where r2:
    "rp2040_read_vbat example_regs (example_device 2) (example_adc_world 0xFF 0x0F) =
       Inr (ESP_OK, Some v2, w2)"
    by blast
  from read_vbat_ok [OF r2] have "v2 = (13837824, - 21)"
    unfolding example_adc_codes by (simp add: conversion_values)
  with r2 have "\<exists>w'. rp2040_read_vbat example_regs (example_device 2) (example_adc_world 0xFF 0x0F) =
          Inr (ESP_OK, Some (13837824, - 21), w')"
    by blast
  ultimately show ?thesis
    by (simp add: valof_values spec_voltage_def)
qed

subsection \<open>Initialisation\<close>

lemma firmware_version_read:
  assumes "rp2040_get_firmware_version R device w = Inr (ESP_OK, version, device1, w1)"
  shows "i2c_semaphore device1 = i2c_semaphore device"
    and "pin_interrupt device1 = pin_interrupt device"
    and "\<not> (i2c_semaphore device1 \<and> lock_held w1)"
    and "device1 = device\<lparr>fw_version := regs w (R RP2040_REG_FW_VER)\<rparr>"
proof -
  have free: "\<not> (i2c_semaphore device \<and> lock_held w)"
    using assms by (auto simp: rp2040_get_firmware_version_def read_reg_blocked)
  from assms show "i2c_semaphore device1 = i2c_semaphore device"
    and "pin_interrupt device1 = pin_interrupt device"
    and "\<not> (i2c_semaphore device1 \<and> lock_held w1)"
    and "device1 = device\<lparr>fw_version := regs w (R RP2040_REG_FW_VER)\<rparr>"
    by (auto simp: rp2040_get_firmware_version_def read_reg_result [OF free] load_single
          le_word_single split: if_splits)
qed

text \<open>
  C9. After the version register has been read successfully, \<open>rp2040_init\<close> returns
  \<open>ESP_ERR_INVALID_VERSION\<close> at that point, with no further bus traffic, exactly when
  the version is below \<open>0x01\<close>. For every version from \<open>0x01\<close> on, \<open>0xFF\<close> included,
  it goes on to read the GPIO direction register, and when nothing fails after that
  (and no interrupt pin is configured) it returns \<open>ESP_OK\<close> with both caches primed.
\<close>

theorem init_version_check:
  assumes "add_device_result env = ESP_OK"
      and "rp2040_get_firmware_version R device w = Inr (ESP_OK, version, device1, w1)"
  shows "(rp2040_init R env device w = Inr (ESP_ERR_INVALID_VERSION, device1, w1)) =
           (fw_version device1 < 0x01) \<and>
         (0x01 \<le> fw_version device1 \<longrightarrow>
            rp2040_init R env device w = Inl Undefined \<or>
            (\<exists>res device' w' rest.
               rp2040_init R env device w = Inr (res, device', w') \<and>
               log w' = log w1 @ TransmitReceive [R RP2040_REG_GPIO_DIR] 1 # rest)) \<and>
         (0x01 \<le> fw_version device1 \<and> outcomes w1 = [] \<and> semaphore_created env \<and>
          pin_interrupt device < 0 \<longrightarrow>
            (\<exists>w'. rp2040_init R env device w =
               Inr (ESP_OK,
                    device1\<lparr>gpio_direction := regs w1 (R RP2040_REG_GPIO_DIR),
                            gpio_value := regs w1 (R RP2040_REG_GPIO_OUT)\<rparr>, w')))"
proof -
  note fv = firmware_version_read [OF assms(2)]
  let ?w2 = "w1\<lparr>log := log w1 @ [TransmitReceive [R RP2040_REG_GPIO_DIR] (Suc 0)],
                 outcomes := tl (outcomes w1),
                 lock_held := (if i2c_semaphore device1 then next_outcome w1 \<noteq> ESP_OK else lock_held w1)\<rparr>"
  have dir: "rp2040_read_reg device1 (R RP2040_REG_GPIO_DIR) (Suc 0) w1 =
     Inr (next_outcome w1,
          (if next_outcome w1 = ESP_OK then load (R RP2040_REG_GPIO_DIR) (Suc 0) (regs w1) else []), ?w2)"
    by (rule read_reg_result [OF fv(3)])
  have free2: "next_outcome w1 = ESP_OK \<Longrightarrow> \<not> (i2c_semaphore d \<and> lock_held ?w2)"
    if "i2c_semaphore d = i2c_semaphore device1" for d :: RP2040
    using that fv(3) by simp
  have out: "rp2040_read_reg (device1\<lparr>gpio_direction := x\<rparr>) (R RP2040_REG_GPIO_OUT) (Suc 0) ?w2 =
     Inr (next_outcome ?w2,
          (if next_outcome ?w2 = ESP_OK then load (R RP2040_REG_GPIO_OUT) (Suc 0) (regs ?w2) else []),
          ?w2\<lparr>log := log ?w2 @ [TransmitReceive [R RP2040_REG_GPIO_OUT] (Suc 0)],
               outcomes := tl (outcomes ?w2),
               lock_held := (if i2c_semaphore device1 then next_outcome ?w2 \<noteq> ESP_OK else lock_held ?w2)\<rparr>)"
    if "next_outcome w1 = ESP_OK" for x
    using read_reg_result [OF free2 [OF _ that], of "device1\<lparr>gpio_direction := x\<rparr>"] by simp
  have stop: "fw_version device1 < 0x01 \<Longrightarrow>
      rp2040_init R env device w = Inr (ESP_ERR_INVALID_VERSION, device1, w1)"
    using assms by (simp add: rp2040_init_def)
  have go: "rp2040_init R env device w = Inl Undefined \<or>
            (\<exists>res device' w' rest.
               rp2040_init R env device w = Inr (res, device', w') \<and>
               log w' = log w1 @ TransmitReceive [R RP2040_REG_GPIO_DIR] 1 # rest)"
    if "0x01 \<le> fw_version device1"
    using that assms
    by (cases "next_outcome w1 = ESP_OK") (auto simp: rp2040_init_def dir out Let_def)
  have differs: "rp2040_init R env device w \<noteq> Inr (ESP_ERR_INVALID_VERSION, device1, w1)"
    if "0x01 \<le> fw_version device1"
    using go [OF that] by auto
  have completes: "\<exists>w'. rp2040_init R env device w =
               Inr (ESP_OK,
                    device1\<lparr>gpio_direction := regs w1 (R RP2040_REG_GPIO_DIR),
                            gpio_value := regs w1 (R RP2040_REG_GPIO_OUT)\<rparr>, w')"
    if "0x01 \<le> fw_version device1" "outcomes w1 = []" "semaphore_created env"
       "pin_interrupt device < 0"
  proof -
    have ok: "next_outcome w1 = ESP_OK"
      using that(2) by (simp add: next_outcome_def)
    have free1: "\<not> (i2c_semaphore device1 \<and> lock_held w1)"
      by (rule fv(3))
    show ?thesis
      using that assms fv(2) free1
      by (simp add: rp2040_init_def read_reg_result ok next_outcome_def load_single
            le_word_single one_le_word Let_def)
  qed
  show ?thesis
    using stop go differs completes by (auto simp: not_le one_le_word)
qed

theorem init_version_check_witness:
  "(\<exists>w'. rp2040_init example_regs example_env (example_device 1) (example_world []) =
      Inr (ESP_ERR_INVALID_VERSION, example_device 0, w')) \<and>
   (\<exists>w'. rp2040_init example_regs example_env (example_device 1) example_bootloader_world =
      Inr (ESP_OK, example_device 0xFF, w'))"
proof -
  have env: "add_device_result example_env = ESP_OK" "semaphore_created example_env"
    by (simp_all add: example_env_def)
  have free: "\<not> (i2c_semaphore (example_device 1) \<and> lock_held (example_world []))"
    "\<not> (i2c_semaphore (example_device 1) \<and> lock_held example_bootloader_world)"
    by (simp_all add: example_bootloader_world_def example_world_def)
  obtain w1 where v0: "rp2040_get_firmware_version example_regs (example_device 1) (example_world []) =
      Inr (ESP_OK, [0], example_device 0, w1)"
    by (simp add: rp2040_get_firmware_version_def rp2040_read_reg_def
          i2c_master_transmit_receive_def next_outcome_def load_single le_word_single
          example_world_def example_device_def)
  obtain w2 where vff: "rp2040_get_firmware_version example_regs (example_device 1) example_bootloader_world =
      Inr (ESP_OK, [0xFF], example_device 0xFF, w2)" and quiet: "outcomes w2 = []"
      and cells: "regs w2 = (\<lambda>r. 0)(0 := 0xFF)"
    by (simp add: rp2040_get_firmware_version_def rp2040_read_reg_def
          i2c_master_transmit_receive_def next_outcome_def load_single le_word_single
          example_bootloader_world_def example_world_def example_device_def)
  have low: "fw_version (example_device 0) < 0x01"
    and high: "0x01 \<le> fw_version (example_device 0xFF)"
    and pin: "pin_interrupt (example_device 1) < 0"
    by (simp_all add: example_device_def)
  from init_version_check [OF env(1) v0] low
  have first: "\<exists>w'. rp2040_init example_regs example_env (example_device 1) (example_world []) =
      Inr (ESP_ERR_INVALID_VERSION, example_device 0, w')"
    by blast
  from init_version_check [OF env(1) vff] high quiet env(2) pin
  have "\<exists>w'. rp2040_init example_regs example_env (example_device 1) example_bootloader_world =
      Inr (ESP_OK,
           (example_device 0xFF)\<lparr>gpio_direction := regs w2 (example_regs RP2040_REG_GPIO_DIR),
                                     gpio_value := regs w2 (example_regs RP2040_REG_GPIO_OUT)\<rparr>, w')"
    by blast
  then have second: "\<exists>w'. rp2040_init example_regs example_env (example_device 1) example_bootloader_world =
      Inr (ESP_OK, example_device 0xFF, w')"
    by (simp add: cells example_device_def)
  from first second show ?thesis
    by blast
qed

end
